theory Spec2Isabelle
  imports Complex_Main "HOL-Library.Multiset" "HOL-Library.Log_Nat"
begin

section \<open>JavaScript numbers as the dashboard view receives them\<close>

text \<open>
  The view (\<^verbatim>\<open>src/components/Dashboard.tsx\<close>) declares its telemetry fields as
  \<^verbatim>\<open>number\<close>, but the payload is cast unchecked (\<^verbatim>\<open>currentData as LiveData\<close>), so at
  run time such a field holds a finite number, \<^verbatim>\<open>NaN\<close>, or \<^verbatim>\<open>undefined\<close> when the device
  did not send it. A finite number is an IEEE 754 double; \<open>Num x\<close> stands for the double
  whose exact value is the rational \<open>x\<close>.
\<close>

datatype jsnumber = Num rat | NaN | Undefined

text \<open>\<^verbatim>\<open>!x\<close> on such a value: zero, \<^verbatim>\<open>NaN\<close> and \<^verbatim>\<open>undefined\<close> are falsy.\<close>

fun falsy :: "jsnumber \<Rightarrow> bool" where
  "falsy (Num x) = (x = 0)"
| "falsy NaN = True"
| "falsy Undefined = True"

text \<open>\<^verbatim>\<open>x === 0\<close>: strict equality with the number zero.\<close>

fun strict_eq_zero :: "jsnumber \<Rightarrow> bool" where
  "strict_eq_zero (Num x) = (x = 0)"
| "strict_eq_zero NaN = False"
| "strict_eq_zero Undefined = False"

subsection \<open>Rounding to a double\<close>

text \<open>
  The result of an arithmetic operation on doubles is the exact result rounded to the
  nearest double, to the one with an even significand on a tie.

  \<open>log2_floor a\<close> is the exponent \<open>e\<close> with \<open>2\<^sup>e \<le> a < 2\<^sup>e\<^sup>+\<^sup>1\<close> of a positive rational: the
  difference of the bit lengths of numerator and denominator, or one less.
\<close>

definition log2_floor :: "rat \<Rightarrow> int" where
  "log2_floor a =
     (let p = bitlen (fst (quotient_of a)) - bitlen (snd (quotient_of a))
      in if a < 2 powi p then p - 1 else p)"

text \<open>The nearest integer, the even one of two that are equally near.\<close>

definition round_half_even :: "rat \<Rightarrow> int" where
  "round_half_even r =
     (let f = \<lfloor>r\<rfloor>; d = r - of_int f
      in if d < 1 / 2 then f else if 1 / 2 < d then f + 1 else if even f then f else f + 1)"

text \<open>
  Doubles near \<open>q\<close> are the multiples of \<open>2\<^sup>u\<close>, where \<open>u\<close> is 52 below the exponent of \<open>q\<close>
  (a significand of 53 bits) and not below \<open>-1074\<close> (the subnormal range). The quotient
  of a double by ten is below the largest double, so no overflow is modelled.
\<close>

definition round_double :: "rat \<Rightarrow> rat" where
  "round_double q =
     (if q = 0 then 0
      else (let u = max (log2_floor \<bar>q\<bar> - 52) (- 1074);
                m = round_half_even (\<bar>q\<bar> / 2 powi u)
            in sgn q * of_int m * 2 powi u))"

text \<open>A rational is (the value of) a finite double when rounding leaves it and it is in range.\<close>

definition is_double :: "rat \<Rightarrow> bool" where
  "is_double x = (round_double x = x \<and> \<bar>x\<bar> < 2 ^ 1024)"

text \<open>
  \<^verbatim>\<open>x / 10\<close>: the exact quotient rounded to a double; \<^verbatim>\<open>undefined\<close> converts to \<^verbatim>\<open>NaN\<close>, and
  \<^verbatim>\<open>NaN / 10\<close> is \<^verbatim>\<open>NaN\<close>.
\<close>

fun div_ten :: "jsnumber \<Rightarrow> jsnumber" where
  "div_ten (Num x) = Num (round_double (x / 10))"
| "div_ten NaN = NaN"
| "div_ten Undefined = NaN"

text \<open>\<^verbatim>\<open>x < c\<close> for a finite constant \<^verbatim>\<open>c\<close>: every comparison with \<^verbatim>\<open>NaN\<close> is false.\<close>

fun js_less :: "jsnumber \<Rightarrow> rat \<Rightarrow> bool" where
  "js_less (Num x) c = (x < c)"
| "js_less NaN c = False"
| "js_less Undefined c = False"

section \<open>The view's helper functions\<close>

text \<open>
  \<^verbatim>\<open>
  const convertTempFromX10 = (tempX10: number): number => {
    if (!tempX10 || tempX10 === 0) return 0
    return tempX10 / 10
  }
  \<close>
\<close>

definition convertTempFromX10 :: "jsnumber \<Rightarrow> jsnumber" where
  "convertTempFromX10 tempX10 =
     (if falsy tempX10 \<or> strict_eq_zero tempX10 then Num 0 else div_ten tempX10)"

text \<open>Decimal digits of a natural number, most significant first.\<close>

definition digit_char :: "nat \<Rightarrow> char" where
  "digit_char d = ''0123456789'' ! (d mod 10)"

fun digits :: "nat \<Rightarrow> string" where
  "digits n = (if n < 10 then [digit_char n] else digits (n div 10) @ [digit_char (n mod 10)])"

declare digits.simps [simp del]

text \<open>
  \<^verbatim>\<open>Number.prototype.toFixed(1)\<close>. The sign is taken off a negative number. A magnitude of
  \<open>10\<^sup>2\<^sup>1\<close> or more is printed as \<^verbatim>\<open>String(x)\<close> prints it, in exponential notation; that
  text is not spelled out here (\<open>ExponentialText\<close>). Otherwise the integer \<open>n\<close> nearest to
  ten times the magnitude is chosen (the larger one on a tie) and printed with one digit
  after the point. \<^verbatim>\<open>NaN\<close> prints as \<^verbatim>\<open>NaN\<close>; on \<^verbatim>\<open>undefined\<close> the call throws a
  \<^verbatim>\<open>TypeError\<close>.
\<close>

datatype no_fixed_text = ThrowsTypeError | ExponentialText

fun toFixed1 :: "jsnumber \<Rightarrow> no_fixed_text + string" where
  "toFixed1 (Num x) =
     (if 10 ^ 21 \<le> \<bar>x\<bar> then Inl ExponentialText
      else (let n = nat \<lfloor>\<bar>x\<bar> * 10 + 1 / 2\<rfloor>
            in Inr ((if x < 0 then ''-'' else []) @
                    digits (n div 10) @ ''.'' @ digits (n mod 10))))"
| "toFixed1 NaN = Inr ''NaN''"
| "toFixed1 Undefined = Inl ThrowsTypeError"

text \<open>
  What a temperature card shows for a raw field:
  \<^verbatim>\<open>{convertTempFromX10(liveData.soil_temperature).toFixed(1)}\<close> followed by the unit text
  of the source file (the six bytes after the closing brace, then nothing else).
\<close>

definition unit_suffix :: string where
  "unit_suffix = [CHR 0xC2, CHR 0xAC, CHR 0xE2, CHR 0x88, CHR 0x9E, CHR ''C'']"

definition temperature_text :: "jsnumber \<Rightarrow> no_fixed_text + string" where
  "temperature_text raw =
     (case toFixed1 (convertTempFromX10 raw) of
        Inl none \<Rightarrow> Inl none
      | Inr s \<Rightarrow> Inr (s @ unit_suffix))"

text \<open>
  \<^verbatim>\<open>
  const getMoistureStatus = (moisture: number) => {
    if (moisture < 30) return { status: 'Critical', color: 'destructive', bgColor: 'bg-red-100' }
    if (moisture < 50) return { status: 'Low', color: 'warning', bgColor: 'bg-yellow-100' }
    if (moisture < 70) return { status: 'Good', color: 'default', bgColor: 'bg-green-100' }
    return { status: 'Excellent', color: 'success', bgColor: 'bg-blue-100' }
  }
  \<close>
\<close>

record moisture_status =
  status :: string
  color :: string
  bgColor :: string

definition getMoistureStatus :: "jsnumber \<Rightarrow> moisture_status" where
  "getMoistureStatus moisture =
     (if js_less moisture 30 then
        \<lparr>status = ''Critical'', color = ''destructive'', bgColor = ''bg-red-100''\<rparr>
      else if js_less moisture 50 then
        \<lparr>status = ''Low'', color = ''warning'', bgColor = ''bg-yellow-100''\<rparr>
      else if js_less moisture 70 then
        \<lparr>status = ''Good'', color = ''default'', bgColor = ''bg-green-100''\<rparr>
      else
        \<lparr>status = ''Excellent'', color = ''success'', bgColor = ''bg-blue-100''\<rparr>)"

text \<open>
  The view's own declaration of a stored reading (\<^verbatim>\<open>interface HistoricalReading\<close> of
  \<^verbatim>\<open>Dashboard.tsx\<close>), and the point it draws for one.
\<close>

record HistoricalReading_view =
  device_id :: string
  timestamp :: string
  date :: string
  air_temperature :: jsnumber
  soil_temperature :: jsnumber
  humidity :: jsnumber
  moisture_surface :: jsnumber
  moisture_root :: jsnumber
  moisture_deep :: jsnumber
  pump_active :: bool
  pump_state :: string
  daily_cycles :: jsnumber
  wifi_signal_dbm :: jsnumber
  uptime_ms :: jsnumber

record chart_point =
  time :: string
  soilTemp :: jsnumber
  airTemp :: jsnumber
  chart_humidity :: jsnumber
  moisture1 :: jsnumber
  moisture2 :: jsnumber
  moisture3 :: jsnumber
  pumpActive :: bool

text \<open>
  \<^verbatim>\<open>Array.prototype.slice(-k)\<close>: the last \<open>k\<close> elements, the whole array when it is
  shorter.
\<close>

definition slice_last :: "nat \<Rightarrow> 'a list \<Rightarrow> 'a list" where
  "slice_last k xs = drop (if k \<le> length xs then length xs - k else 0) xs"

text \<open>
  \<^verbatim>\<open>
  const formatHistoricalData = () => {
    if (!historicalData?.length) return []
    return historicalData
      .slice(-24) // Last 24 readings
      .map((reading: HistoricalReading) => ({
        time: new Date(reading.timestamp).toLocaleTimeString('en-US', {...}),
        soilTemp: convertTempFromX10(reading.soil_temperature),
        airTemp: convertTempFromX10(reading.air_temperature),
        humidity: reading.humidity,
        moisture1: reading.moisture_surface,
        moisture2: reading.moisture_root,
        moisture3: reading.moisture_deep,
        pumpActive: reading.pump_active
      }))
  }
  \<close>
  The locale's clock text of a timestamp is the parameter \<open>toLocaleTimeString\<close>.
\<close>

definition chart_point_of :: "(string \<Rightarrow> string) \<Rightarrow> HistoricalReading_view \<Rightarrow> chart_point" where
  "chart_point_of toLocaleTimeString reading =
     \<lparr>time = toLocaleTimeString (timestamp reading),
      soilTemp = convertTempFromX10 (soil_temperature reading),
      airTemp = convertTempFromX10 (air_temperature reading),
      chart_humidity = humidity reading,
      moisture1 = moisture_surface reading,
      moisture2 = moisture_root reading,
      moisture3 = moisture_deep reading,
      pumpActive = pump_active reading\<rparr>"

definition formatHistoricalData ::
  "(string \<Rightarrow> string) \<Rightarrow> HistoricalReading_view list \<Rightarrow> chart_point list" where
  "formatHistoricalData toLocaleTimeString historicalData =
     (if length historicalData = 0 then []
      else map (chart_point_of toLocaleTimeString) (slice_last 24 historicalData))"

text \<open>
  A stored sequence as the hook fetches it: 48 readings, one a minute from 00:10 to 00:57,
  newest first.
\<close>

definition stamp :: "nat \<Rightarrow> string" where
  "stamp m = ''2024-01-01T00:'' @ digits m @ '':00Z''"

definition reading_at :: "nat \<Rightarrow> HistoricalReading_view" where
  "reading_at m =
     \<lparr>device_id = ''AF001'', timestamp = stamp m, date = ''2024-01-01'',
      air_temperature = Num 255, soil_temperature = Num 213, humidity = Num 60,
      moisture_surface = Num 41, moisture_root = Num 45, moisture_deep = Num 52,
      pump_active = False, pump_state = ''OFF'', daily_cycles = Num 2,
      wifi_signal_dbm = Num (- 58), uptime_ms = Num (of_nat m * 60000)\<rparr>"

definition stored_48 :: "HistoricalReading_view list" where
  "stored_48 = map reading_at (rev [10..<58])"

section \<open>Values read from the remote stores\<close>

text \<open>
  The hook (\<^verbatim>\<open>hooks/useAgroFlow.ts\<close>) reads untyped values: \<^verbatim>\<open>doc: any\<close>,
  \<^verbatim>\<open>snapshot.val()\<close>. An object is the list of its own properties in enumeration order.
\<close>

datatype jsval =
    JUndefined
  | JNull
  | JBool bool
  | JNumber rat
  | JNaN
  | JString string
  | JArray "jsval list"
  | JObject "(string \<times> jsval) list"

text \<open>
  \<^verbatim>\<open>v.name\<close> on a value that is neither \<^verbatim>\<open>null\<close> nor \<^verbatim>\<open>undefined\<close>, for the property
  names the hook reads (\<^verbatim>\<open>fields\<close>, the field names, \<^verbatim>\<open>stringValue\<close>,
  \<^verbatim>\<open>integerValue\<close>, \<^verbatim>\<open>booleanValue\<close>, \<^verbatim>\<open>timestamp\<close>, \<^verbatim>\<open>pump_active\<close>): none of them is a
  property of a primitive or of an array.
\<close>

fun get_prop :: "jsval \<Rightarrow> string \<Rightarrow> jsval" where
  "get_prop (JObject kvs) name = (case map_of kvs name of Some v \<Rightarrow> v | None \<Rightarrow> JUndefined)"
| "get_prop _ name = JUndefined"

fun nullish :: "jsval \<Rightarrow> bool" where
  "nullish JUndefined = True"
| "nullish JNull = True"
| "nullish _ = False"

text \<open>\<^verbatim>\<open>v?.name\<close>: \<^verbatim>\<open>undefined\<close> when \<open>v\<close> is \<^verbatim>\<open>null\<close> or \<^verbatim>\<open>undefined\<close>.\<close>

definition opt_chain :: "jsval \<Rightarrow> string \<Rightarrow> jsval" where
  "opt_chain v name = (if nullish v then JUndefined else get_prop v name)"

text \<open>Truthiness, as \<^verbatim>\<open>||\<close> and \<^verbatim>\<open>if\<close> test it.\<close>

fun truthy :: "jsval \<Rightarrow> bool" where
  "truthy JUndefined = False"
| "truthy JNull = False"
| "truthy (JBool b) = b"
| "truthy (JNumber x) = (x \<noteq> 0)"
| "truthy JNaN = False"
| "truthy (JString s) = (s \<noteq> [])"
| "truthy (JArray xs) = True"
| "truthy (JObject kvs) = True"

text \<open>\<^verbatim>\<open>a || b\<close>.\<close>

definition js_or :: "jsval \<Rightarrow> jsval \<Rightarrow> jsval" where
  "js_or a b = (if truthy a then a else b)"

text \<open>\<^verbatim>\<open>typeof data === 'object' && data !== null\<close>.\<close>

fun is_object :: "jsval \<Rightarrow> bool" where
  "is_object (JObject kvs) = True"
| "is_object (JArray xs) = True"
| "is_object _ = False"

datatype console_entry = ConsoleLog string | ConsoleError string

section \<open>The hook's state\<close>

text \<open>
  The hook's declaration of a stored reading. \<^verbatim>\<open>convertFirestoreDoc\<close> copies whatever
  truthy value it finds in the document, so a field holds any value at run time.
\<close>

record HistoricalReading =
  device_id :: jsval
  timestamp :: jsval
  date :: jsval
  air_temperature :: jsval
  soil_temperature :: jsval
  humidity :: jsval
  moisture_surface :: jsval
  moisture_root :: jsval
  moisture_deep :: jsval
  pump_active :: jsval
  pump_state :: jsval
  irrigation_reason :: jsval
  daily_cycles :: jsval
  wifi_signal_dbm :: jsval
  uptime_ms :: jsval
  rtdb_uploads :: jsval
  firestore_uploads :: jsval

text \<open>
  The eight \<^verbatim>\<open>useState\<close> cells of \<^verbatim>\<open>useAgroFlowData\<close> (\<open>None\<close> is \<^verbatim>\<open>null\<close>), and the
  browser console the hook writes to, which is not part of its state.
\<close>

record hook =
  currentData :: "jsval option"
  historicalData :: "HistoricalReading list"
  irrigationEvents :: "jsval list"
  deviceStatus :: "jsval option"
  loading :: bool
  error :: "string option"
  connected :: bool
  lastUpdate :: "string option"
  console :: "console_entry list"

text \<open>The state of a freshly mounted hook: the initial values of the \<^verbatim>\<open>useState\<close> calls.\<close>

definition initial_hook :: hook where
  "initial_hook =
     \<lparr>currentData = None, historicalData = [], irrigationEvents = [], deviceStatus = None,
      loading = True, error = None, connected = False, lastUpdate = None, console = []\<rparr>"

section \<open>What the hook asks of its surroundings\<close>

text \<open>A document of the query snapshot: \<^verbatim>\<open>doc.data()\<close> returns a value or throws.\<close>

datatype doc = DataReturns jsval | DataThrows string

datatype direction = Asc | Desc

datatype query_constraint =
    OrderBy string direction
  | Limit nat
  | Where string string jsval

record firestore_query =
  collection_path :: string
  constraints :: "query_constraint list"

text \<open>
  The surroundings of one run of the hook's code:
  \<^item> \<open>getDocs q\<close>: the document store's answer to the query \<open>q\<close>, the documents in the
    store's order, or the rejection's text;
  \<^item> \<open>get path\<close>: the realtime database's one-shot read of \<open>path\<close>, the snapshot's value
    (\<open>JNull\<close> when nothing is stored there) or the rejection's text;
  \<^item> \<open>now\<close>: \<^verbatim>\<open>new Date().toISOString()\<close>;
  \<^item> \<open>getTime v\<close>: \<^verbatim>\<open>new Date(v).getTime()\<close>, \<open>None\<close> for \<^verbatim>\<open>NaN\<close> (an invalid date);
  \<^item> \<open>history_first\<close>: whether, of the two requests \<^verbatim>\<open>Promise.all\<close> has in flight, the
    document store's settles before the event log's;
  \<^item> \<open>sort_rank xs\<close>: the order in which the engine's \<^verbatim>\<open>Array.prototype.sort\<close> leaves the
    array \<open>xs\<close> when the comparator is not consistent, as a ranking of the indices.
\<close>

record env =
  getDocs :: "firestore_query \<Rightarrow> string + doc list"
  get :: "string \<Rightarrow> string + jsval"
  now :: string
  getTime :: "jsval \<Rightarrow> int option"
  history_first :: bool
  sort_rank :: "jsval list \<Rightarrow> nat \<Rightarrow> int"

text \<open>\<^verbatim>\<open>snapshot.exists()\<close>, and the children \<^verbatim>\<open>snapshot.forEach\<close> visits, in key order.\<close>

definition snapshot_exists :: "jsval \<Rightarrow> bool" where
  "snapshot_exists v = (v \<noteq> JNull)"

fun snapshot_children :: "jsval \<Rightarrow> jsval list" where
  "snapshot_children (JObject kvs) = map snd kvs"
| "snapshot_children (JArray xs) = filter (\<lambda>v. v \<noteq> JNull) xs"
| "snapshot_children _ = []"

section \<open>Decoding a stored reading\<close>

text \<open>\<^verbatim>\<open>data.fields?.NAME?.KIND\<close>, for \<open>data\<close> neither \<^verbatim>\<open>null\<close> nor \<^verbatim>\<open>undefined\<close>.\<close>

definition field_of :: "jsval \<Rightarrow> string \<Rightarrow> string \<Rightarrow> jsval" where
  "field_of data name kind = opt_chain (opt_chain (get_prop data ''fields'') name) kind"

text \<open>
  \<^verbatim>\<open>
  const convertFirestoreDoc = (doc: any): HistoricalReading | null => {
    try {
      const data = doc.data()
      return {
        device_id: data.fields?.device_id?.stringValue || deviceId,
        timestamp: data.fields?.timestamp?.stringValue || '',
        ...
        firestore_uploads: data.fields?.firestore_uploads?.integerValue || 0
      }
    } catch (err) {
      console.error('Error converting Firestore doc:', err)
      return null
    }
  }
  \<close>
  The first access \<^verbatim>\<open>data.fields\<close> is not optional: it throws on \<^verbatim>\<open>null\<close> and
  \<^verbatim>\<open>undefined\<close>. The result comes with what was written to the console.
\<close>

definition convert_failed :: "HistoricalReading option \<times> console_entry list" where
  "convert_failed = (None, [ConsoleError ''Error converting Firestore doc:''])"

definition decode_fields :: "string \<Rightarrow> jsval \<Rightarrow> HistoricalReading" where
  "decode_fields deviceId data =
        \<lparr>
          device_id = js_or (field_of data ''device_id'' ''stringValue'') (JString deviceId),
          timestamp = js_or (field_of data ''timestamp'' ''stringValue'') (JString []),
          date = js_or (field_of data ''date'' ''stringValue'') (JString []),
          air_temperature = js_or (field_of data ''air_temperature'' ''integerValue'') (JNumber 0),
          soil_temperature = js_or (field_of data ''soil_temperature'' ''integerValue'') (JNumber 0),
          humidity = js_or (field_of data ''humidity'' ''integerValue'') (JNumber 0),
          moisture_surface = js_or (field_of data ''moisture_surface'' ''integerValue'') (JNumber 0),
          moisture_root = js_or (field_of data ''moisture_root'' ''integerValue'') (JNumber 0),
          moisture_deep = js_or (field_of data ''moisture_deep'' ''integerValue'') (JNumber 0),
          pump_active = js_or (field_of data ''pump_active'' ''booleanValue'') (JBool False),
          pump_state = js_or (field_of data ''pump_state'' ''stringValue'') (JString ''OFF''),
          irrigation_reason = js_or (field_of data ''irrigation_reason'' ''stringValue'') (JString []),
          daily_cycles = js_or (field_of data ''daily_cycles'' ''integerValue'') (JNumber 0),
          wifi_signal_dbm = js_or (field_of data ''wifi_signal_dbm'' ''integerValue'') (JNumber 0),
          uptime_ms = js_or (field_of data ''uptime_ms'' ''integerValue'') (JNumber 0),
          rtdb_uploads = js_or (field_of data ''rtdb_uploads'' ''integerValue'') (JNumber 0),
          firestore_uploads = js_or (field_of data ''firestore_uploads'' ''integerValue'') (JNumber 0)\<rparr>"

fun convertFirestoreDoc :: "string \<Rightarrow> doc \<Rightarrow> HistoricalReading option \<times> console_entry list" where
  "convertFirestoreDoc deviceId (DataThrows err) = convert_failed"
| "convertFirestoreDoc deviceId (DataReturns data) =
     (if nullish data then convert_failed else (Some (decode_fields deviceId data), []))"

text \<open>
  The loop of \<^verbatim>\<open>fetchHistoricalData\<close> over the query snapshot:
  \<^verbatim>\<open>
  querySnapshot.forEach((doc) => {
    const reading = convertFirestoreDoc(doc)
    if (reading) { readings.push(reading) }
  })
  \<close>
\<close>

fun collect_readings ::
  "string \<Rightarrow> doc list \<Rightarrow> HistoricalReading list \<times> console_entry list" where
  "collect_readings deviceId [] = ([], [])"
| "collect_readings deviceId (d # ds) =
     (let (reading, out) = convertFirestoreDoc deviceId d;
          (readings, outs) = collect_readings deviceId ds
      in (case reading of None \<Rightarrow> readings | Some r \<Rightarrow> r # readings, out @ outs))"

section \<open>The hook's fetches\<close>

text \<open>
  The query \<^verbatim>\<open>fetchHistoricalData\<close> builds; the device identifier is in scope and is
  not used:
  \<^verbatim>\<open>
  // Simplified query - just get recent documents without device filter for now
  const q = firestoreQuery(
    collection(firestore, 'sensor_readings'),
    orderBy('fields.timestamp.stringValue', 'desc'),
    limit(48)
  )
  \<close>
\<close>

definition history_query :: "string \<Rightarrow> firestore_query" where
  "history_query deviceId =
     \<lparr>collection_path = ''sensor_readings'',
      constraints = [OrderBy ''fields.timestamp.stringValue'' Desc, Limit 48]\<rparr>"

definition fetchHistoricalData :: "env \<Rightarrow> string \<Rightarrow> hook \<Rightarrow> hook" where
  "fetchHistoricalData e deviceId s =
     (case getDocs e (history_query deviceId) of
        Inr docs \<Rightarrow>
          (let (readings, out) = collect_readings deviceId docs
           in s\<lparr>historicalData := readings,
                console := console s @ out @
                  [ConsoleLog (''Fetched '' @ digits (length readings) @ '' historical readings'')]\<rparr>)
      | Inl err \<Rightarrow>
          s\<lparr>console := console s @ [ConsoleError ''Error fetching historical data:''],
            error := Some (''Failed to fetch historical data: '' @ err)\<rparr>)"

text \<open>
  \<^verbatim>\<open>Array.prototype.sort(comparefn)\<close> with a consistent comparator (one that never returns
  \<^verbatim>\<open>NaN\<close> and orders the elements like a key does). The language fixes the result: the
  stable arrangement in which \<open>a\<close> stands before \<open>b\<close> whenever \<^verbatim>\<open>comparefn(a, b) < 0\<close>.
  Insertion from the right computes that arrangement.
\<close>

definition sort_compare :: "('a \<Rightarrow> 'a \<Rightarrow> int option) \<Rightarrow> 'a \<Rightarrow> 'a \<Rightarrow> int" where
  "sort_compare comparefn a b = (case comparefn a b of None \<Rightarrow> 0 | Some v \<Rightarrow> v)"

fun insert_sorted :: "('a \<Rightarrow> 'a \<Rightarrow> int option) \<Rightarrow> 'a \<Rightarrow> 'a list \<Rightarrow> 'a list" where
  "insert_sorted comparefn x [] = [x]"
| "insert_sorted comparefn x (y # ys) =
     (if sort_compare comparefn x y \<le> 0 then x # y # ys
      else y # insert_sorted comparefn x ys)"

definition consistent_sort :: "('a \<Rightarrow> 'a \<Rightarrow> int option) \<Rightarrow> 'a list \<Rightarrow> 'a list" where
  "consistent_sort comparefn xs = foldr (insert_sorted comparefn) xs []"

text \<open>
  With a comparator that is not consistent the language leaves the order to the engine.
  The engine's choice is given by the surroundings as a ranking of the array's indices:
  \<open>arrange rank xs\<close> lists the elements of \<open>xs\<close> by ascending rank of their index, in
  array order among equal ranks. It is a rearrangement of \<open>xs\<close> whatever the ranking, and
  a ranking exists for every rearrangement (rank each index by the place its element
  goes to).
\<close>

definition arrange :: "(nat \<Rightarrow> int) \<Rightarrow> 'a list \<Rightarrow> 'a list" where
  "arrange rank xs = map snd (sort_key (\<lambda>p. rank (fst p)) (enumerate 0 xs))"

text \<open>
  \<^verbatim>\<open>(a, b) => new Date(b.timestamp).getTime() - new Date(a.timestamp).getTime()\<close>:
  \<^verbatim>\<open>NaN\<close> (\<open>None\<close>) as soon as one of the two dates is invalid.
\<close>

definition event_time :: "env \<Rightarrow> jsval \<Rightarrow> int option" where
  "event_time e ev = getTime e (get_prop ev ''timestamp'')"

definition compare_events :: "env \<Rightarrow> jsval \<Rightarrow> jsval \<Rightarrow> int option" where
  "compare_events e a b =
     (case (event_time e b, event_time e a) of
        (Some tb, Some ta) \<Rightarrow> Some (tb - ta)
      | _ \<Rightarrow> None)"

text \<open>
  \<^verbatim>\<open>events.sort((a, b) => ...)\<close>. The comparator is a difference of event times: it is
  consistent when every event has a valid date, and returns \<^verbatim>\<open>NaN\<close> for every pair with
  an event that has none.
\<close>

definition sort_events :: "env \<Rightarrow> jsval list \<Rightarrow> jsval list" where
  "sort_events e events =
     (if list_all (\<lambda>ev. event_time e ev \<noteq> None) events
      then consistent_sort (compare_events e) events
      else arrange (sort_rank e events) events)"

text \<open>
  \<^verbatim>\<open>
  const snapshot = await get(ref(database, `irrigation_log/${deviceId}`))
  if (snapshot.exists()) {
    const events = []
    snapshot.forEach((childSnapshot) => {
      const data = childSnapshot.val()
      if (typeof data === 'object' && data !== null) { events.push(data) }
    })
    events.sort((a, b) => ...)
    const recentEvents = events.slice(0, 20)
    setIrrigationEvents(recentEvents)
    console.log(`Fetched ${recentEvents.length} irrigation events`)
  } else {
    setIrrigationEvents([])
    console.log('No irrigation events found')
  }
  \<close>
  and, in the \<^verbatim>\<open>catch\<close>, \<^verbatim>\<open>setError(`Failed to fetch irrigation events: ${err}`)\<close>.
\<close>

definition recent_events :: "env \<Rightarrow> jsval \<Rightarrow> jsval list" where
  "recent_events e snapshot =
     take 20 (sort_events e (filter is_object (snapshot_children snapshot)))"

definition fetchIrrigationEvents :: "env \<Rightarrow> string \<Rightarrow> hook \<Rightarrow> hook" where
  "fetchIrrigationEvents e deviceId s =
     (case get e (''irrigation_log/'' @ deviceId) of
        Inr snapshot \<Rightarrow>
          (if snapshot_exists snapshot then
             (let recentEvents = recent_events e snapshot
              in s\<lparr>irrigationEvents := recentEvents,
                   console := console s @
                     [ConsoleLog (''Fetched '' @ digits (length recentEvents) @ '' irrigation events'')]\<rparr>)
           else
             s\<lparr>irrigationEvents := [],
               console := console s @ [ConsoleLog ''No irrigation events found'']\<rparr>)
      | Inl err \<Rightarrow>
          s\<lparr>console := console s @ [ConsoleError ''Error fetching irrigation events:''],
            error := Some (''Failed to fetch irrigation events: '' @ err)\<rparr>)"

section \<open>The live subscriptions\<close>

text \<open>
  The two callbacks \<^verbatim>\<open>setupRealTimeListeners\<close> registers on
  \<^verbatim>\<open>live_monitoring/${deviceId}\<close>: one for a pushed snapshot, one for an error.
\<close>

definition liveData_onValue :: "env \<Rightarrow> jsval \<Rightarrow> hook \<Rightarrow> hook" where
  "liveData_onValue e snapshot s =
     (if snapshot_exists snapshot then
        s\<lparr>currentData := Some snapshot, connected := True, lastUpdate := Some (now e),
          error := None, console := console s @ [ConsoleLog ''Live data updated:'']\<rparr>
      else
        s\<lparr>currentData := None, connected := False,
          console := console s @ [ConsoleLog ''No live data available'']\<rparr>)"

definition liveData_onError :: "string \<Rightarrow> hook \<Rightarrow> hook" where
  "liveData_onError message s =
     s\<lparr>console := console s @ [ConsoleError ''Live data listener error:''],
       error := Some (''Real-time connection failed: '' @ message), connected := False\<rparr>"

text \<open>
  The two callbacks on \<^verbatim>\<open>device_status/${deviceId}\<close>:
  \<^verbatim>\<open>
  (snapshot) => {
    if (snapshot.exists()) {
      const data = snapshot.val()
      setDeviceStatus(data as DeviceStatus)
      console.log('Device status updated:', data.last_seen)
    } else {
      setDeviceStatus(null)
    }
  },
  (error) => { console.error('Device status listener error:', error) }
  \<close>
\<close>

definition deviceStatus_onValue :: "jsval \<Rightarrow> hook \<Rightarrow> hook" where
  "deviceStatus_onValue snapshot s =
     (if snapshot_exists snapshot then
        s\<lparr>deviceStatus := Some snapshot,
          console := console s @ [ConsoleLog ''Device status updated:'']\<rparr>
      else s\<lparr>deviceStatus := None\<rparr>)"

definition deviceStatus_onError :: "string \<Rightarrow> hook \<Rightarrow> hook" where
  "deviceStatus_onError message s =
     s\<lparr>console := console s @ [ConsoleError ''Device status listener error:'']\<rparr>"

text \<open>The paths the two subscriptions are opened on.\<close>

definition live_path :: "string \<Rightarrow> string" where
  "live_path deviceId = ''live_monitoring/'' @ deviceId"

definition status_path :: "string \<Rightarrow> string" where
  "status_path deviceId = ''device_status/'' @ deviceId"

section \<open>Refresh\<close>

text \<open>
  \<^verbatim>\<open>
  const refreshData = useCallback(async () => {
    setLoading(true)
    setError(null)
    try {
      await Promise.all([fetchHistoricalData(), fetchIrrigationEvents()])
      const liveDataSnapshot = await get(ref(database, `live_monitoring/${deviceId}`))
      if (liveDataSnapshot.exists()) {
        setCurrentData(liveDataSnapshot.val() as LiveData)
        setConnected(true)
        setLastUpdate(new Date().toISOString())
      }
      const statusSnapshot = await get(ref(database, `device_status/${deviceId}`))
      if (statusSnapshot.exists()) { setDeviceStatus(statusSnapshot.val() as DeviceStatus) }
      console.log('Data refresh completed')
    } catch (err) {
      console.error('Error refreshing data:', err)
      setError(`Failed to refresh data: ${err}`)
    } finally {
      setLoading(false)
    }
  }, ...)
  \<close>
  Each of the two fetches catches its own failure, so \<^verbatim>\<open>Promise.all\<close> never rejects; each
  runs one continuation after its single \<^verbatim>\<open>await\<close>, and the two continuations run in the
  order in which the requests settle.
\<close>

definition refresh_failed :: "string \<Rightarrow> hook \<Rightarrow> hook" where
  "refresh_failed err s =
     s\<lparr>console := console s @ [ConsoleError ''Error refreshing data:''],
       error := Some (''Failed to refresh data: '' @ err)\<rparr>"

definition both_fetches :: "env \<Rightarrow> string \<Rightarrow> hook \<Rightarrow> hook" where
  "both_fetches e deviceId s =
     (if history_first e
      then fetchIrrigationEvents e deviceId (fetchHistoricalData e deviceId s)
      else fetchHistoricalData e deviceId (fetchIrrigationEvents e deviceId s))"

definition refresh_snapshots :: "env \<Rightarrow> string \<Rightarrow> hook \<Rightarrow> hook" where
  "refresh_snapshots e deviceId s =
     (case get e (live_path deviceId) of
        Inl err \<Rightarrow> refresh_failed err s
      | Inr liveDataSnapshot \<Rightarrow>
          (let s1 = (if snapshot_exists liveDataSnapshot
                     then s\<lparr>currentData := Some liveDataSnapshot, connected := True,
                            lastUpdate := Some (now e)\<rparr>
                     else s)
           in (case get e (status_path deviceId) of
                 Inl err \<Rightarrow> refresh_failed err s1
               | Inr statusSnapshot \<Rightarrow>
                   (let s2 = (if snapshot_exists statusSnapshot
                              then s1\<lparr>deviceStatus := Some statusSnapshot\<rparr> else s1)
                    in s2\<lparr>console := console s2 @ [ConsoleLog ''Data refresh completed'']\<rparr>))))"

definition refreshData :: "env \<Rightarrow> string \<Rightarrow> hook \<Rightarrow> hook" where
  "refreshData e deviceId s =
     (refresh_snapshots e deviceId
        (both_fetches e deviceId (s\<lparr>loading := True, error := None\<rparr>)))\<lparr>loading := False\<rparr>"

section \<open>What the hook hands to the view, and the pump button\<close>

text \<open>
  The object \<^verbatim>\<open>useAgroFlowData\<close> returns, as its property names and whether each holds a
  function:
  \<^verbatim>\<open>
  return { currentData, historicalData, irrigationEvents, deviceStatus, loading, error,
           connected, lastUpdate, refreshData }
  \<close>
\<close>

datatype member = Value | Function

definition useAgroFlowData_return :: "(string \<times> member) list" where
  "useAgroFlowData_return =
     [(''currentData'', Value), (''historicalData'', Value), (''irrigationEvents'', Value),
      (''deviceStatus'', Value), (''loading'', Value), (''error'', Value),
      (''connected'', Value), (''lastUpdate'', Value), (''refreshData'', Function)]"

text \<open>
  The view destructures \<^verbatim>\<open>controlPump\<close> from that object
  (\<^verbatim>\<open>const { ..., refreshData, controlPump } = useAgroFlowData(deviceId)\<close>): a property the
  object does not have reads as \<^verbatim>\<open>undefined\<close>, \<open>None\<close> here.
\<close>

definition view_controlPump :: "member option" where
  "view_controlPump = map_of useAgroFlowData_return ''controlPump''"

text \<open>
  \<^verbatim>\<open>
  const handlePumpControl = async () => {
    if (!liveData) return
    setPumpControlLoading(true)
    try {
      const newState = liveData.pump_active ? 'OFF' : 'ON'
      const success = await controlPump(newState)
      if (success) { console.log(`Pump ${newState} command sent successfully`) }
      else { console.error('Failed to send pump control command') }
    } catch (error) {
      console.error('Error controlling pump:', error)
    } finally {
      setPumpControlLoading(false)
    }
  }
  \<close>
  \<open>commands\<close> lists the arguments with which a pump function was really invoked.
  Calling a value that is not a function throws a \<^verbatim>\<open>TypeError\<close>, which the \<^verbatim>\<open>catch\<close>
  takes. \<open>remote newState\<close> is what an invoked function would answer: a success flag,
  or the text of what it throws.
\<close>

record pump_view =
  pumpControlLoading :: bool
  view_console :: "console_entry list"
  commands :: "string list"

definition handlePumpControl ::
  "(string \<Rightarrow> string + bool) \<Rightarrow> member option \<Rightarrow> jsval option \<Rightarrow> pump_view \<Rightarrow> pump_view" where
  "handlePumpControl remote controlPump liveData v =
     (case liveData of
        None \<Rightarrow> v
      | Some ld \<Rightarrow>
          if \<not> truthy ld then v
          else
            (let newState = (if truthy (get_prop ld ''pump_active'') then ''OFF'' else ''ON'');
                 thrown = v\<lparr>view_console := view_console v @
                            [ConsoleError ''Error controlling pump:'']\<rparr>;
                 v' = (case controlPump of
                         Some Function \<Rightarrow>
                           (let sent = v\<lparr>commands := commands v @ [newState]\<rparr>
                            in (case remote newState of
                                  Inl err \<Rightarrow>
                                    sent\<lparr>view_console := view_console v @
                                      [ConsoleError ''Error controlling pump:'']\<rparr>
                                | Inr success \<Rightarrow>
                                    sent\<lparr>view_console := view_console v @
                                      [if success
                                       then ConsoleLog (''Pump '' @ newState @
                                              '' command sent successfully'')
                                       else ConsoleError ''Failed to send pump control command'']\<rparr>))
                       | _ \<Rightarrow> thrown)
             in v'\<lparr>pumpControlLoading := False\<rparr>))"

section \<open>The device the hook watches\<close>

text \<open>
  \<^verbatim>\<open>export const useAgroFlowData = (deviceId: string = 'AF001')\<close>: the device identifier
  is the caller's, or the default when the caller gives none.
\<close>

definition hook_device :: "string option \<Rightarrow> string" where
  "hook_device given = (case given of None \<Rightarrow> ''AF001'' | Some deviceId \<Rightarrow> deviceId)"

text \<open>The paths on which \<^verbatim>\<open>setupRealTimeListeners\<close> calls \<^verbatim>\<open>onValue\<close>, in order.\<close>

definition setupRealTimeListeners :: "string \<Rightarrow> string list" where
  "setupRealTimeListeners deviceId = [live_path deviceId, status_path deviceId]"

text \<open>
  Two surroundings answer the hook of a device alike when they agree on the answer to
  the history query, on what the three paths of that device hold, and on everything
  that is no remote store.
\<close>

definition same_answers :: "env \<Rightarrow> env \<Rightarrow> string \<Rightarrow> bool" where
  "same_answers e e' deviceId =
     (getDocs e (history_query deviceId) = getDocs e' (history_query deviceId) \<and>
      get e (''irrigation_log/'' @ deviceId) = get e' (''irrigation_log/'' @ deviceId) \<and>
      get e (live_path deviceId) = get e' (live_path deviceId) \<and>
      get e (status_path deviceId) = get e' (status_path deviceId) \<and>
      now e = now e' \<and> getTime e = getTime e' \<and>
      history_first e = history_first e' \<and> sort_rank e = sort_rank e')"

section \<open>Sample surroundings\<close>

text \<open>A document of the \<^verbatim>\<open>sensor_readings\<close> collection, in the nesting the hook decodes.\<close>

definition reading_doc :: "string \<Rightarrow> string \<Rightarrow> jsval" where
  "reading_doc dev ts =
     JObject [(''fields'', JObject
       [(''device_id'', JObject [(''stringValue'', JString dev)]),
        (''timestamp'', JObject [(''stringValue'', JString ts)]),
        (''air_temperature'', JObject [(''integerValue'', JNumber 255)]),
        (''pump_active'', JObject [(''booleanValue'', JBool True)]),
        (''pump_state'', JObject [(''stringValue'', JString ''ON'')])])]"

text \<open>
  A store whose \<^verbatim>\<open>sensor_readings\<close> collection holds one reading, uploaded by the
  device \<^verbatim>\<open>AF002\<close>: a query on the collection that has no \<^verbatim>\<open>where\<close> constraint is
  answered with that document (ordering and a limit of 48 change nothing for one
  document), any other query with nothing. Nothing is stored in the realtime database.
\<close>

fun is_where :: "query_constraint \<Rightarrow> bool" where
  "is_where (Where field op v) = True"
| "is_where _ = False"

definition other_device_env :: env where
  "other_device_env =
     \<lparr>getDocs = (\<lambda>q. if collection_path q = ''sensor_readings'' \<and>
                         filter is_where (constraints q) = []
                      then Inr [DataReturns (reading_doc ''AF002'' ''2024-01-01T00:30:00Z'')]
                      else Inr []),
      get = (\<lambda>path. Inr JNull),
      now = ''2024-01-01T00:31:00.000Z'',
      getTime = (\<lambda>v. None),
      history_first = True,
      sort_rank = (\<lambda>xs i. int i)\<rparr>"

text \<open>
  Surroundings in which the document store and the event log of \<^verbatim>\<open>AF001\<close> reject every
  request and the other paths of the realtime database hold nothing.
\<close>

definition offline_env :: env where
  "offline_env =
     \<lparr>getDocs = (\<lambda>q. Inl ''unavailable''),
      get = (\<lambda>path. if path = ''irrigation_log/AF001'' then Inl ''unavailable'' else Inr JNull),
      now = ''2024-01-01T00:31:00.000Z'',
      getTime = (\<lambda>v. None),
      history_first = True,
      sort_rank = (\<lambda>xs i. int i)\<rparr>"

text \<open>A hook that has loaded data before.\<close>

definition loaded_hook :: hook where
  "loaded_hook =
     \<lparr>currentData = Some (JObject [(''moisture_root'', JNumber 42), (''pump_active'', JBool False)]),
      historicalData = [decode_fields ''AF001'' (reading_doc ''AF001'' ''2024-01-01T00:00:00Z'')],
      irrigationEvents = [JObject [(''event'', JString ''started'')]],
      deviceStatus = Some (JObject [(''online'', JBool True)]),
      loading = False, error = None, connected = True,
      lastUpdate = Some ''2024-01-01T00:00:00.000Z'', console = []\<rparr>"

text \<open>
  An event log with three events, stored in the order third day, first day, second day,
  and one entry that is not an object.
\<close>

definition event_on :: "string \<Rightarrow> jsval" where
  "event_on ts = JObject [(''timestamp'', JString ts), (''event'', JString ''started'')]"

definition sample_log :: jsval where
  "sample_log =
     JObject [(''-Na'', event_on ''2024-01-03T00:00:00Z''),
              (''-Nb'', event_on ''2024-01-01T00:00:00Z''),
              (''-Nc'', JString ''note''),
              (''-Nd'', event_on ''2024-01-02T00:00:00Z'')]"

definition log_env :: env where
  "log_env =
     \<lparr>getDocs = (\<lambda>q. Inr []),
      get = (\<lambda>path. if path = ''irrigation_log/AF001'' then Inr sample_log else Inr JNull),
      now = ''2024-01-04T00:00:00.000Z'',
      getTime = (\<lambda>v. if v = JString ''2024-01-01T00:00:00Z'' then Some 1704067200000
                      else if v = JString ''2024-01-02T00:00:00Z'' then Some 1704153600000
                      else if v = JString ''2024-01-03T00:00:00Z'' then Some 1704240000000
                      else None),
      history_first = True,
      sort_rank = (\<lambda>xs i. int i)\<rparr>"

text \<open>
  A query snapshot of three documents: the second one's \<^verbatim>\<open>data()\<close> yields \<^verbatim>\<open>null\<close>.
\<close>

definition mixed_batch :: "doc list" where
  "mixed_batch =
     [DataReturns (reading_doc ''AF001'' ''2024-01-01T00:30:00Z''),
      DataReturns JNull,
      DataReturns (reading_doc ''AF001'' ''2024-01-01T00:00:00Z'')]"

definition batch_env :: env where
  "batch_env =
     \<lparr>getDocs = (\<lambda>q. Inr mixed_batch),
      get = (\<lambda>path. Inr JNull),
      now = ''2024-01-01T00:31:00.000Z'',
      getTime = (\<lambda>v. None),
      history_first = True,
      sort_rank = (\<lambda>xs i. int i)\<rparr>"

text \<open>
  An event log in which the second of three events has no timestamp, read by an engine
  that leaves the array as it finds it when the comparator is not consistent (a sort
  that first looks for an ordered run, and takes \<^verbatim>\<open>NaN\<close> as "equal", finds the whole
  array to be one).
\<close>

definition undated_event :: jsval where
  "undated_event = JObject [(''event'', JString ''completed'')]"

definition undated_log :: jsval where
  "undated_log =
     JObject [(''-Na'', event_on ''2024-01-01T00:00:00Z''),
              (''-Nb'', undated_event),
              (''-Nc'', event_on ''2024-01-03T00:00:00Z'')]"

definition undated_env :: env where
  "undated_env = log_env\<lparr>get := (\<lambda>path. if path = ''irrigation_log/AF001''
                                           then Inr undated_log else Inr JNull)\<rparr>"

text \<open>
  The surroundings \<open>offline_env\<close> with a reading of another device stored in the
  realtime database.
\<close>

definition crowded_env :: env where
  "crowded_env =
     offline_env\<lparr>get := (\<lambda>path. if path = ''live_monitoring/AF002''
                                  then Inr (JObject [(''moisture_root'', JNumber 17)])
                                  else get offline_env path)\<rparr>"

text \<open>The key by which a descending sort on the event time is an ascending sort.\<close>

definition desc_key :: "env \<Rightarrow> jsval \<Rightarrow> int" where
  "desc_key e ev = - the (event_time e ev)"

section \<open>Temperature decoding and display\<close>

lemma convertTempFromX10_Num: "convertTempFromX10 (Num t) = Num (round_double (t / 10))"
  by (simp add: convertTempFromX10_def round_double_def)

lemma convertTempFromX10_absent: "convertTempFromX10 Undefined = Num 0"
  by (simp add: convertTempFromX10_def)

lemma digits_small: "n < 10 \<Longrightarrow> digits n = [digit_char n]"
  by (simp add: digits.simps)

lemma toFixed1_zero: "toFixed1 (Num 0) = Inr ''0.0''"
  by (simp add: digits_small digit_char_def)

subsection \<open>How far a double is from the number it rounds\<close>

lemma log2_floor_le:
  assumes "0 < a"
  shows "2 powi (log2_floor a) \<le> a"
proof -
  obtain n d where nd: "quotient_of a = (n, d)"
    by (cases "quotient_of a")
  have d: "0 < d"
    using nd by (rule quotient_of_denom_pos)
  have a: "a = of_int n / of_int d"
    using nd by (rule quotient_of_div)
  have n: "0 < n"
    using assms d a by (simp add: zero_less_divide_iff)
  define p where "p = bitlen n - bitlen d"
  show ?thesis
  proof (cases "a < 2 powi p")
    case False
    then show ?thesis
      by (simp add: log2_floor_def nd p_def Let_def)
  next
    case True
    then have e: "log2_floor a = p - 1"
      by (simp add: log2_floor_def nd p_def Let_def)
    have bn: "2 ^ nat (bitlen n - 1) \<le> n"
      using bitlen_bounds [OF n] by simp
    have bd: "d < 2 ^ nat (bitlen d)"
      using bitlen_bounds [OF d] by simp
    have n1: "1 \<le> bitlen n"
      using n by (simp add: bitlen_alt_def)
    have d0: "0 \<le> bitlen d"
      by (rule bitlen_nonneg)
    have "(2::rat) powi (p - 1) = 2 powi ((bitlen n - 1) - bitlen d)"
      by (simp add: p_def algebra_simps)
    also have "\<dots> = 2 powi (bitlen n - 1) / 2 powi (bitlen d)"
      by (rule power_int_diff) simp
    also have "\<dots> = 2 ^ nat (bitlen n - 1) / 2 ^ nat (bitlen d)"
      using n1 d0 by (simp add: power_int_def)
    also have "\<dots> \<le> of_int n / 2 ^ nat (bitlen d)"
    proof -
      have "(of_int (2 ^ nat (bitlen n - 1)) :: rat) \<le> of_int n"
        using bn by (simp only: of_int_le_iff)
      then show ?thesis
        by (simp add: divide_right_mono)
    qed
    also have "\<dots> \<le> of_int n / of_int d"
    proof -
      have "(of_int d :: rat) \<le> of_int (2 ^ nat (bitlen d))"
        using bd by (simp only: of_int_le_iff)
      then show ?thesis
        using n d by (intro divide_left_mono) simp_all
    qed
    finally show ?thesis
      using e a by simp
  qed
qed

lemma round_half_even_error: "\<bar>of_int (round_half_even r) - r\<bar> \<le> 1 / 2"
  unfolding round_half_even_def Let_def by (auto simp: abs_if; linarith)

lemma round_half_even_nonneg: "0 \<le> r \<Longrightarrow> 0 \<le> round_half_even r"
  unfolding round_half_even_def Let_def by auto

lemma round_double_abs:
  assumes "q \<noteq> 0"
  shows "\<bar>\<bar>round_double q\<bar> - \<bar>q\<bar>\<bar> \<le> 2 powi (max (log2_floor \<bar>q\<bar> - 52) (- 1074)) / 2"
proof -
  define u where "u = max (log2_floor \<bar>q\<bar> - 52) (- 1074)"
  define m where "m = round_half_even (\<bar>q\<bar> / 2 powi u)"
  have pos: "(0::rat) < 2 powi u"
    by simp
  have m0: "0 \<le> m"
    unfolding m_def by (rule round_half_even_nonneg) simp
  have r: "round_double q = sgn q * of_int m * 2 powi u"
    using assms by (simp add: round_double_def u_def m_def Let_def)
  have "\<bar>round_double q\<bar> = of_int m * 2 powi u"
    unfolding r using assms m0 by (simp add: abs_mult abs_sgn_eq)
  then have "\<bar>round_double q\<bar> - \<bar>q\<bar> = (of_int m - \<bar>q\<bar> / 2 powi u) * 2 powi u"
    using pos by (simp add: algebra_simps)
  then have "\<bar>\<bar>round_double q\<bar> - \<bar>q\<bar>\<bar> = \<bar>of_int m - \<bar>q\<bar> / 2 powi u\<bar> * 2 powi u"
    by (simp add: abs_mult)
  also have "\<dots> \<le> 1 / 2 * 2 powi u"
    using round_half_even_error [of "\<bar>q\<bar> / 2 powi u"] pos
    unfolding m_def by (intro mult_right_mono) simp_all
  finally show ?thesis
    unfolding u_def by simp
qed

lemma round_double_sgn: "round_double q = sgn q * \<bar>round_double q\<bar>"
proof (cases "q = 0")
  case True
  then show ?thesis
    by (simp add: round_double_def)
next
  case False
  define u where "u = max (log2_floor \<bar>q\<bar> - 52) (- 1074)"
  define m where "m = round_half_even (\<bar>q\<bar> / 2 powi u)"
  have m0: "0 \<le> m"
    unfolding m_def by (rule round_half_even_nonneg) simp
  have r: "round_double q = sgn q * (of_int m * 2 powi u)"
    using False by (simp add: round_double_def u_def m_def Let_def)
  have "\<bar>round_double q\<bar> = of_int m * 2 powi u"
    unfolding r using False m0 by (simp add: abs_mult abs_sgn_eq)
  then show ?thesis
    using r by simp
qed

text \<open>Below \<open>2\<^sup>4\<^sup>7\<close> a double is within \<open>1/128\<close> of the number it rounds.\<close>

lemma round_double_near:
  assumes "q \<noteq> 0" and "\<bar>q\<bar> < 2 ^ 47"
  shows "\<bar>\<bar>round_double q\<bar> - \<bar>q\<bar>\<bar> \<le> 1 / 128"
proof -
  have "2 powi (log2_floor \<bar>q\<bar>) \<le> \<bar>q\<bar>"
    using assms(1) by (intro log2_floor_le) simp
  then have "(2::rat) powi (log2_floor \<bar>q\<bar>) < 2 powi 47"
    using assms(2) by simp
  then have "log2_floor \<bar>q\<bar> < 47"
    by (intro power_int_le_imp_less_exp [of "2::rat"]) simp_all
  then have u: "max (log2_floor \<bar>q\<bar> - 52) (- 1074) \<le> - 6"
    by simp
  have "(2::rat) powi (max (log2_floor \<bar>q\<bar> - 52) (- 1074)) \<le> 2 powi (- 6)"
    using u by (intro power_int_increasing) simp_all
  then have "(2::rat) powi (max (log2_floor \<bar>q\<bar> - 52) (- 1074)) / 2 \<le> 1 / 128"
    by (simp add: power_int_minus)
  then show ?thesis
    using round_double_abs [OF assms(1)] by linarith
qed

text \<open>
  Up to \<open>10\<^sup>1\<^sup>5\<close> tenths, the double quotient by ten is so near the exact quotient that
  printing it with one digit gives back the tenths, with their sign, in fixed notation.
\<close>

lemma tenths_round_trip:
  assumes "k \<noteq> 0" and "\<bar>k\<bar> \<le> 10 ^ 15"
  shows "nat \<lfloor>\<bar>round_double (of_int k / 10)\<bar> * 10 + 1 / 2\<rfloor> = nat \<bar>k\<bar>"
    and "(round_double (of_int k / 10) < 0) = (k < 0)"
    and "\<bar>round_double (of_int k / 10)\<bar> < 10 ^ 21"
proof -
  let ?q = "(of_int k :: rat) / 10"
  let ?x = "round_double ?q"
  have q0: "?q \<noteq> 0"
    using assms(1) by simp
  have bound: "\<bar>(of_int k :: rat)\<bar> \<le> 10 ^ 15"
    using assms(2) by (metis of_int_abs of_int_le_iff of_int_numeral of_int_power)
  then have small: "\<bar>?q\<bar> < 2 ^ 47"
    by simp
  have near: "\<bar>\<bar>?x\<bar> - \<bar>?q\<bar>\<bar> \<le> 1 / 128"
    using q0 small by (rule round_double_near)
  have q10: "\<bar>?q\<bar> * 10 = of_int \<bar>k\<bar>"
    by simp
  have k1: "(1::rat) \<le> of_int \<bar>k\<bar>"
    using assms(1) by simp
  have lo: "\<bar>?q\<bar> - 1 / 128 \<le> \<bar>?x\<bar>" and hi: "\<bar>?x\<bar> \<le> \<bar>?q\<bar> + 1 / 128"
    using near by linarith+
  have "\<lfloor>\<bar>?x\<bar> * 10 + 1 / 2\<rfloor> = \<bar>k\<bar>"
  proof (rule floor_unique)
    show "of_int \<bar>k\<bar> \<le> \<bar>?x\<bar> * 10 + 1 / 2"
      using lo q10 by linarith
    show "\<bar>?x\<bar> * 10 + 1 / 2 < of_int \<bar>k\<bar> + 1"
      using hi q10 by linarith
  qed
  then show "nat \<lfloor>\<bar>?x\<bar> * 10 + 1 / 2\<rfloor> = nat \<bar>k\<bar>"
    by simp
  have xpos: "0 < \<bar>?x\<bar>"
    using lo q10 k1 by linarith
  have "?x = sgn ?q * \<bar>?x\<bar>"
    by (rule round_double_sgn)
  then have "(?x < 0) = (sgn ?q * \<bar>?x\<bar> < 0)"
    by simp
  also have "\<dots> = (?q < 0)"
    using xpos by (simp add: mult_less_0_iff sgn_if)
  finally show "(?x < 0) = (k < 0)"
    by simp
  have "\<bar>?q\<bar> \<le> 100000000000000"
    using bound by simp
  then have "\<bar>?x\<bar> \<le> 100000000000000 + 1 / 128"
    using hi by linarith
  then show "\<bar>?x\<bar> < 10 ^ 21"
    by simp
qed

lemma temperature_text_tenths:
  assumes "\<bar>k\<bar> \<le> 10 ^ 15"
  shows "temperature_text (Num (of_int k)) =
     Inr ((if k < 0 then ''-'' else []) @
          digits (nat \<bar>k\<bar> div 10) @ ''.'' @ digits (nat \<bar>k\<bar> mod 10) @ unit_suffix)"
proof (cases "k = 0")
  case True
  then show ?thesis
    by (simp add: temperature_text_def convertTempFromX10_def digits_small digit_char_def)
next
  case False
  have decoded: "convertTempFromX10 (Num (of_int k)) = Num (round_double (of_int k / 10))"
    by (rule convertTempFromX10_Num)
  show ?thesis
    unfolding temperature_text_def decoded toFixed1.simps Let_def
    using tenths_round_trip [OF False assms] by simp
qed

text \<open>
  Claim C2, as the code has it. For every number \<open>t\<close> the decode function returns the
  quotient \<open>t / 10\<close> of double arithmetic, and an absent value or \<^verbatim>\<open>NaN\<close> decodes to \<open>0\<close>.
  Nothing marks a zero or absent value as "no reading": for a fixed-point temperature of
  \<open>k\<close> tenths, up to \<open>10\<^sup>1\<^sup>5\<close> in magnitude, the card prints the decimal text of \<open>k / 10\<close> with
  one digit after the point, followed by the unit, the value \<open>0\<close> included; and it prints
  \<open>0.0\<close> and the unit for an absent value.
\<close>

theorem temperature_decode_and_text:
  "(is_double t \<longrightarrow> convertTempFromX10 (Num t) = Num (round_double (t / 10))) \<and>
   convertTempFromX10 Undefined = Num 0 \<and>
   convertTempFromX10 NaN = Num 0 \<and>
   (\<bar>k\<bar> \<le> 10 ^ 15 \<longrightarrow>
      temperature_text (Num (of_int k)) =
        Inr ((if k < 0 then ''-'' else []) @
             digits (nat \<bar>k\<bar> div 10) @ ''.'' @ digits (nat \<bar>k\<bar> mod 10) @ unit_suffix)) \<and>
   temperature_text Undefined = Inr (''0.0'' @ unit_suffix)"
proof (intro conjI impI)
  show "convertTempFromX10 (Num t) = Num (round_double (t / 10))"
    by (rule convertTempFromX10_Num)
  show "convertTempFromX10 Undefined = Num 0"
    by (rule convertTempFromX10_absent)
  show "convertTempFromX10 NaN = Num 0"
    by (simp add: convertTempFromX10_def)
  show "temperature_text Undefined = Inr (''0.0'' @ unit_suffix)"
    unfolding temperature_text_def convertTempFromX10_absent toFixed1_zero by simp
next
  assume "\<bar>k\<bar> \<le> 10 ^ 15"
  then show "temperature_text (Num (of_int k)) =
        Inr ((if k < 0 then ''-'' else []) @
             digits (nat \<bar>k\<bar> div 10) @ ''.'' @ digits (nat \<bar>k\<bar> mod 10) @ unit_suffix)"
    by (rule temperature_text_tenths)
qed

text \<open>
  The theorem at work: 255 tenths decode to the double 25.5 and are shown as \<open>25.5\<close>;
  five tenths below zero are shown as \<open>-0.5\<close>.
\<close>

theorem temperature_decode_and_text_witness:
  "is_double 255 \<and>
   convertTempFromX10 (Num 255) = Num (51 / 2) \<and>
   temperature_text (Num 255) = Inr (''25.5'' @ unit_suffix) \<and>
   temperature_text (Num (- 5)) = Inr (''-0.5'' @ unit_suffix)"
proof -
  have double: "is_double 255"
    unfolding is_double_def by code_simp
  have rounded: "round_double (255 / 10) = 51 / 2"
    by code_simp
  have decoded: "convertTempFromX10 (Num 255) = Num (51 / 2)"
    using double temperature_decode_and_text [of 255 0] rounded by simp
  have shown: "temperature_text (Num 255) = Inr (''25.5'' @ unit_suffix)"
    using temperature_decode_and_text [of 255 255]
    by (simp add: digits.simps digit_char_def)
  have below: "temperature_text (Num (- 5)) = Inr (''-0.5'' @ unit_suffix)"
    using temperature_decode_and_text [of 255 "- 5"]
    by (simp add: digits.simps digit_char_def)
  show ?thesis
    using double decoded shown below by simp
qed

text \<open>
  Claim C2 as the specification states it fails at the raw value \<open>0\<close>: the card shows
  \<open>0.0\<close> and the unit.
\<close>

theorem zero_temperature_is_rendered:
  "temperature_text (Num 0) = Inr (''0.0'' @ unit_suffix)"
  by (simp add: temperature_text_def convertTempFromX10_def digits_small digit_char_def)

section \<open>Moisture buckets\<close>

lemma getMoistureStatus_Num:
  "status (getMoistureStatus (Num m)) =
     (if m < 30 then ''Critical'' else if m < 50 then ''Low''
      else if m < 70 then ''Good'' else ''Excellent'')"
  by (simp add: getMoistureStatus_def)

text \<open>
  Claim C3. For every moisture value \<open>m\<close> the bucket is \<open>Critical\<close> exactly when \<open>m < 30\<close>,
  \<open>Low\<close> exactly when \<open>30 \<le> m < 50\<close>, \<open>Good\<close> exactly when \<open>50 \<le> m < 70\<close>, and \<open>Excellent\<close>
  exactly when \<open>70 \<le> m\<close>: each boundary belongs to the bucket above it.
\<close>

theorem moisture_buckets:
  "(status (getMoistureStatus (Num m)) = ''Critical'' \<longleftrightarrow> m < 30) \<and>
   (status (getMoistureStatus (Num m)) = ''Low'' \<longleftrightarrow> 30 \<le> m \<and> m < 50) \<and>
   (status (getMoistureStatus (Num m)) = ''Good'' \<longleftrightarrow> 50 \<le> m \<and> m < 70) \<and>
   (status (getMoistureStatus (Num m)) = ''Excellent'' \<longleftrightarrow> 70 \<le> m)"
  by (simp add: getMoistureStatus_Num)

text \<open>
  A field that is absent or \<^verbatim>\<open>NaN\<close> is no moisture value; every comparison with it is
  false, so it falls through to the last bucket.
\<close>

lemma getMoistureStatus_not_a_number:
  "status (getMoistureStatus NaN) = ''Excellent'' \<and>
   status (getMoistureStatus Undefined) = ''Excellent''"
  by (simp add: getMoistureStatus_def)

section \<open>What the fetches leave alone\<close>

lemma fetchHistoricalData_frame:
  "currentData (fetchHistoricalData e d s) = currentData s \<and>
   irrigationEvents (fetchHistoricalData e d s) = irrigationEvents s \<and>
   deviceStatus (fetchHistoricalData e d s) = deviceStatus s \<and>
   loading (fetchHistoricalData e d s) = loading s \<and>
   connected (fetchHistoricalData e d s) = connected s \<and>
   lastUpdate (fetchHistoricalData e d s) = lastUpdate s"
  by (simp add: fetchHistoricalData_def split: sum.splits prod.splits)

lemma fetchIrrigationEvents_frame:
  "currentData (fetchIrrigationEvents e d s) = currentData s \<and>
   historicalData (fetchIrrigationEvents e d s) = historicalData s \<and>
   deviceStatus (fetchIrrigationEvents e d s) = deviceStatus s \<and>
   loading (fetchIrrigationEvents e d s) = loading s \<and>
   connected (fetchIrrigationEvents e d s) = connected s \<and>
   lastUpdate (fetchIrrigationEvents e d s) = lastUpdate s"
  by (simp add: fetchIrrigationEvents_def Let_def split: sum.splits)

lemma fetchHistoricalData_rejected:
  "getDocs e (history_query d) = Inl err \<Longrightarrow>
   fetchHistoricalData e d s =
     s\<lparr>console := console s @ [ConsoleError ''Error fetching historical data:''],
       error := Some (''Failed to fetch historical data: '' @ err)\<rparr>"
  by (simp add: fetchHistoricalData_def)

lemma fetchIrrigationEvents_rejected:
  "get e (''irrigation_log/'' @ d) = Inl err \<Longrightarrow>
   fetchIrrigationEvents e d s =
     s\<lparr>console := console s @ [ConsoleError ''Error fetching irrigation events:''],
       error := Some (''Failed to fetch irrigation events: '' @ err)\<rparr>"
  by (simp add: fetchIrrigationEvents_def)

lemma both_fetches_frame:
  "currentData (both_fetches e d s) = currentData s \<and>
   deviceStatus (both_fetches e d s) = deviceStatus s \<and>
   loading (both_fetches e d s) = loading s \<and>
   connected (both_fetches e d s) = connected s \<and>
   lastUpdate (both_fetches e d s) = lastUpdate s"
  by (simp add: both_fetches_def fetchHistoricalData_frame fetchIrrigationEvents_frame)

text \<open>Whichever request settles first, two rejections leave both lists and set the error.\<close>

lemma both_fetches_rejected:
  assumes "getDocs e (history_query d) = Inl e1"
    and "get e (''irrigation_log/'' @ d) = Inl e2"
  shows "historicalData (both_fetches e d s) = historicalData s \<and>
         irrigationEvents (both_fetches e d s) = irrigationEvents s \<and>
         error (both_fetches e d s) \<noteq> None"
  using assms
  by (simp add: both_fetches_def fetchHistoricalData_rejected fetchIrrigationEvents_rejected)

lemma refresh_snapshots_lists:
  "historicalData (refresh_snapshots e d s) = historicalData s \<and>
   irrigationEvents (refresh_snapshots e d s) = irrigationEvents s"
  by (simp add: refresh_snapshots_def refresh_failed_def Let_def split: sum.splits)

text \<open>The snapshot phase never clears an error: it sets one or leaves the field.\<close>

lemma refresh_snapshots_error:
  "error s \<noteq> None \<Longrightarrow> error (refresh_snapshots e d s) \<noteq> None"
  by (simp add: refresh_snapshots_def refresh_failed_def Let_def split: sum.splits)

lemma refreshData_loading: "loading (refreshData e d s) = False"
  by (simp add: refreshData_def)

lemma refresh_snapshots_live_empty:
  "get e (live_path d) = Inr JNull \<Longrightarrow>
   currentData (refresh_snapshots e d s) = currentData s \<and>
   connected (refresh_snapshots e d s) = connected s \<and>
   lastUpdate (refresh_snapshots e d s) = lastUpdate s"
  by (simp add: refresh_snapshots_def refresh_failed_def snapshot_exists_def Let_def
      split: sum.splits)

lemma refresh_snapshots_status_empty:
  "get e (status_path d) = Inr JNull \<Longrightarrow>
   deviceStatus (refresh_snapshots e d s) = deviceStatus s"
  by (simp add: refresh_snapshots_def refresh_failed_def snapshot_exists_def Let_def
      split: sum.splits)

section \<open>Refresh when both fetches fail\<close>

text \<open>
  Claim C7. Every run of \<open>refreshData\<close> ends with the loading flag false. When the
  document store rejects the history query and the realtime database rejects the read of
  the event log, the run leaves the stored historical sequence and the stored event
  sequence as they were and ends with the error field set.
\<close>

theorem refresh_both_fetches_fail:
  "loading (refreshData e' d' s') = False \<and>
   (getDocs e (history_query d) = Inl e1 \<and> get e (''irrigation_log/'' @ d) = Inl e2 \<longrightarrow>
      historicalData (refreshData e d s) = historicalData s \<and>
      irrigationEvents (refreshData e d s) = irrigationEvents s \<and>
      error (refreshData e d s) \<noteq> None \<and>
      loading (refreshData e d s) = False)"
proof (intro conjI impI)
  show "loading (refreshData e' d' s') = False"
    by (rule refreshData_loading)
next
  assume rejected:
    "getDocs e (history_query d) = Inl e1 \<and> get e (''irrigation_log/'' @ d) = Inl e2"
  let ?s0 = "s\<lparr>loading := True, error := None\<rparr>"
  have fetched:
    "historicalData (both_fetches e d ?s0) = historicalData ?s0 \<and>
     irrigationEvents (both_fetches e d ?s0) = irrigationEvents ?s0 \<and>
     error (both_fetches e d ?s0) \<noteq> None"
    using rejected by (intro both_fetches_rejected) simp_all
  show "historicalData (refreshData e d s) = historicalData s"
    using fetched by (simp add: refreshData_def refresh_snapshots_lists)
  show "irrigationEvents (refreshData e d s) = irrigationEvents s"
    using fetched by (simp add: refreshData_def refresh_snapshots_lists)
  show "error (refreshData e d s) \<noteq> None"
    using fetched refresh_snapshots_error [of "both_fetches e d ?s0" e d]
    by (simp add: refreshData_def)
  show "loading (refreshData e d s) = False"
    by (rule refreshData_loading)
qed

text \<open>
  The theorem at work: a hook that has loaded one reading and one event before refreshes
  while both stores reject. It keeps both, reports the failure and stops loading.
\<close>

theorem refresh_both_fetches_fail_witness:
  "getDocs offline_env (history_query ''AF001'') = Inl ''unavailable'' \<and>
   get offline_env (''irrigation_log/'' @ ''AF001'') = Inl ''unavailable'' \<and>
   historicalData (refreshData offline_env ''AF001'' loaded_hook) = historicalData loaded_hook \<and>
   length (historicalData (refreshData offline_env ''AF001'' loaded_hook)) = 1 \<and>
   irrigationEvents (refreshData offline_env ''AF001'' loaded_hook) =
     [JObject [(''event'', JString ''started'')]] \<and>
   error (refreshData offline_env ''AF001'' loaded_hook) \<noteq> None \<and>
   loading (refreshData offline_env ''AF001'' loaded_hook) = False"
proof -
  have rejected:
    "getDocs offline_env (history_query ''AF001'') = Inl ''unavailable'' \<and>
     get offline_env (''irrigation_log/'' @ ''AF001'') = Inl ''unavailable''"
    by (simp add: offline_env_def)
  show ?thesis
    using rejected
      refresh_both_fetches_fail [of offline_env "''AF001''" loaded_hook offline_env
        "''AF001''" "''unavailable''" "''unavailable''" loaded_hook]
    by (simp add: loaded_hook_def)
qed

section \<open>The device-status subscription\<close>

text \<open>
  Claim C9. A push delivered to the device-status callback changes, of the hook's state,
  the device-status field only: it becomes the pushed value, or \<^verbatim>\<open>null\<close> when the path is
  empty. The current reading, both sequences, the loading flag, the error field, the
  connectivity flag and the last-update stamp stay as they were. An error delivered to
  the subscription changes no field of the state at all; it is written to the console.
\<close>

theorem device_status_callback_frame:
  "currentData (deviceStatus_onValue snapshot s) = currentData s \<and>
   historicalData (deviceStatus_onValue snapshot s) = historicalData s \<and>
   irrigationEvents (deviceStatus_onValue snapshot s) = irrigationEvents s \<and>
   loading (deviceStatus_onValue snapshot s) = loading s \<and>
   error (deviceStatus_onValue snapshot s) = error s \<and>
   connected (deviceStatus_onValue snapshot s) = connected s \<and>
   lastUpdate (deviceStatus_onValue snapshot s) = lastUpdate s \<and>
   deviceStatus (deviceStatus_onValue snapshot s) =
     (if snapshot_exists snapshot then Some snapshot else None) \<and>
   deviceStatus_onError message s =
     s\<lparr>console := console s @ [ConsoleError ''Device status listener error:'']\<rparr>"
  by (simp add: deviceStatus_onValue_def deviceStatus_onError_def)

section \<open>Refresh on an empty snapshot\<close>

text \<open>
  Claim C10. When the one-shot read of the live path finds no value, \<open>refreshData\<close> leaves
  the stored current reading, the connectivity flag and the last-update stamp as they
  were; when the one-shot read of the status path finds no value, it leaves the stored
  device status as it was. The live subscription's callback differs: on an empty push it
  clears the current reading and sets the connectivity flag to false.
\<close>

theorem refresh_keeps_state_on_empty_snapshot:
  "(get e (live_path d) = Inr JNull \<longrightarrow>
      currentData (refreshData e d s) = currentData s \<and>
      connected (refreshData e d s) = connected s \<and>
      lastUpdate (refreshData e d s) = lastUpdate s) \<and>
   (get e (status_path d) = Inr JNull \<longrightarrow>
      deviceStatus (refreshData e d s) = deviceStatus s) \<and>
   currentData (liveData_onValue e JNull s) = None \<and>
   connected (liveData_onValue e JNull s) = False"
  by (simp add: refreshData_def refresh_snapshots_live_empty refresh_snapshots_status_empty
      both_fetches_frame liveData_onValue_def snapshot_exists_def)

text \<open>
  The theorem at work: with nothing stored at either path, a refresh keeps the reading,
  the connectivity and the stamp a connected hook holds, where an empty push drops the
  reading and the connectivity.
\<close>

theorem refresh_keeps_state_on_empty_snapshot_witness:
  "get offline_env (live_path ''AF001'') = Inr JNull \<and>
   get offline_env (status_path ''AF001'') = Inr JNull \<and>
   currentData (refreshData offline_env ''AF001'' loaded_hook) =
     Some (JObject [(''moisture_root'', JNumber 42), (''pump_active'', JBool False)]) \<and>
   connected (refreshData offline_env ''AF001'' loaded_hook) = True \<and>
   lastUpdate (refreshData offline_env ''AF001'' loaded_hook) = Some ''2024-01-01T00:00:00.000Z'' \<and>
   deviceStatus (refreshData offline_env ''AF001'' loaded_hook) =
     Some (JObject [(''online'', JBool True)]) \<and>
   currentData (liveData_onValue offline_env JNull loaded_hook) = None \<and>
   connected (liveData_onValue offline_env JNull loaded_hook) = False"
proof -
  have empty:
    "get offline_env (live_path ''AF001'') = Inr JNull \<and>
     get offline_env (status_path ''AF001'') = Inr JNull"
    by (simp add: offline_env_def live_path_def status_path_def)
  show ?thesis
    using empty refresh_keeps_state_on_empty_snapshot [of offline_env "''AF001''" loaded_hook]
    by (simp add: loaded_hook_def)
qed

section \<open>The pump button\<close>

text \<open>
  Claim C1, on the code. The object the hook returns has no \<open>controlPump\<close> property, so the
  view's \<open>controlPump\<close> is \<^verbatim>\<open>undefined\<close>. Pressing the pump button with a live reading on
  screen therefore invokes nothing: the \<^verbatim>\<open>TypeError\<close> of the call is caught and written to
  the console, and the button is released. Whatever the live reading, no command leaves
  the view.
\<close>

theorem pump_button_sends_nothing:
  "view_controlPump = None \<and>
   handlePumpControl remote view_controlPump (Some (JObject reading)) v =
     v\<lparr>view_console := view_console v @ [ConsoleError ''Error controlling pump:''],
       pumpControlLoading := False\<rparr> \<and>
   commands (handlePumpControl remote view_controlPump liveData v) = commands v"
  by (simp add: view_controlPump_def useAgroFlowData_return_def handlePumpControl_def
      split: option.splits)

section \<open>The irrigation-event log\<close>

text \<open>
  When every event carries a valid date, the comparator of \<open>fetchIrrigationEvents\<close> is
  the order of \<open>desc_key\<close>, and the sort is the library's stable sort by that key.
\<close>

lemma insert_sorted_insort_key:
  assumes "event_time e x \<noteq> None" and "\<forall>y\<in>set ys. event_time e y \<noteq> None"
  shows "insert_sorted (compare_events e) x ys = insort_key (desc_key e) x ys"
  using assms
  by (induction ys) (auto simp: sort_compare_def compare_events_def desc_key_def)

lemma consistent_sort_sort_key:
  assumes "\<forall>x\<in>set xs. event_time e x \<noteq> None"
  shows "consistent_sort (compare_events e) xs = sort_key (desc_key e) xs"
  using assms
proof (induction xs)
  case Nil
  then show ?case by (simp add: consistent_sort_def)
next
  case (Cons x xs)
  then have ih: "foldr (insert_sorted (compare_events e)) xs [] = sort_key (desc_key e) xs"
    by (simp add: consistent_sort_def)
  have "\<forall>y\<in>set (sort_key (desc_key e) xs). event_time e y \<noteq> None"
    using Cons.prems by simp
  then show ?case
    using Cons.prems ih
    by (simp add: consistent_sort_def insert_sorted_insort_key sort_key_def)
qed

lemma sort_events_dated:
  assumes "\<forall>x\<in>set xs. event_time e x \<noteq> None"
  shows "sort_events e xs = sort_key (desc_key e) xs"
  using assms by (simp add: sort_events_def list_all_iff consistent_sort_sort_key)

text \<open>Sorting rearranges: with or without dates, no event is lost or made up.\<close>

lemma mset_insert_sorted: "mset (insert_sorted c x ys) = add_mset x (mset ys)"
  by (induction ys) auto

lemma mset_consistent_sort: "mset (consistent_sort c xs) = mset xs"
  by (induction xs) (simp_all add: consistent_sort_def mset_insert_sorted)

lemma mset_arrange: "mset (arrange rank xs) = mset xs"
proof -
  have "mset (arrange rank xs) = image_mset snd (mset (sort_key (\<lambda>p. rank (fst p)) (enumerate 0 xs)))"
    unfolding arrange_def by (rule mset_map)
  also have "\<dots> = image_mset snd (mset (enumerate 0 xs))"
    by simp
  also have "\<dots> = mset (map snd (enumerate 0 xs))"
    by (rule mset_map [symmetric])
  finally show ?thesis
    by simp
qed

lemma mset_sort_events: "mset (sort_events e xs) = mset xs"
  by (simp add: sort_events_def mset_consistent_sort mset_arrange)

lemma length_sort_events: "length (sort_events e xs) = length xs"
  using mset_sort_events [of e xs] by (metis size_mset)

text \<open>Both branches of \<open>snapshot.exists()\<close> store \<open>recent_events\<close>: an empty snapshot has no child.\<close>

lemma fetchIrrigationEvents_fetched:
  "get e (''irrigation_log/'' @ d) = Inr snapshot \<Longrightarrow>
   irrigationEvents (fetchIrrigationEvents e d s) = recent_events e snapshot"
  by (auto simp: fetchIrrigationEvents_def Let_def snapshot_exists_def recent_events_def
      sort_events_def consistent_sort_def)

lemma sorted_desc_key:
  "sorted (map (desc_key e) xs) \<Longrightarrow>
   sorted_wrt (\<lambda>a b. the (event_time e b) \<le> the (event_time e a)) xs"
  by (induction xs) (auto simp: desc_key_def)

text \<open>
  Claim C5, as the code has it. Let the read of the device's event log return a
  snapshot. Then the sequence \<open>fetchIrrigationEvents\<close> stores
  \<^item> together with some list \<open>rest\<close> of left-out events is a rearrangement of exactly the
    object entries of the snapshot (entries that are not objects are gone),
  \<^item> holds 20 events, or all the object entries when there are fewer, and
  \<^item> does not depend on the sequence stored before.

  When moreover every object entry has a timestamp that is a valid date, the stored
  sequence followed by \<open>rest\<close> is in descending order of event time (so the stored events
  are in that order and no left-out event is newer than a stored one), and the stored
  sequence is the first 20 of the stable descending sort of the object entries.
\<close>

theorem irrigation_events_filtered_truncated_sorted:
  assumes fetched: "get e (''irrigation_log/'' @ d) = Inr snapshot"
  shows "\<exists>rest.
           mset (irrigationEvents (fetchIrrigationEvents e d s) @ rest) =
             mset (filter is_object (snapshot_children snapshot)) \<and>
           length (irrigationEvents (fetchIrrigationEvents e d s)) =
             min 20 (length (filter is_object (snapshot_children snapshot))) \<and>
           irrigationEvents (fetchIrrigationEvents e d s) =
             irrigationEvents (fetchIrrigationEvents e d s') \<and>
           ((\<forall>ev\<in>set (snapshot_children snapshot). is_object ev \<longrightarrow> event_time e ev \<noteq> None) \<longrightarrow>
              sorted_wrt (\<lambda>a b. the (event_time e b) \<le> the (event_time e a))
                (irrigationEvents (fetchIrrigationEvents e d s) @ rest) \<and>
              irrigationEvents (fetchIrrigationEvents e d s) =
                take 20 (sort_key (desc_key e) (filter is_object (snapshot_children snapshot))))"
proof -
  let ?objs = "filter is_object (snapshot_children snapshot)"
  let ?all = "sort_events e ?objs"
  have res: "irrigationEvents (fetchIrrigationEvents e d s) = take 20 ?all"
    using fetched by (simp add: fetchIrrigationEvents_fetched recent_events_def)
  have res': "irrigationEvents (fetchIrrigationEvents e d s') = take 20 ?all"
    using fetched by (simp add: fetchIrrigationEvents_fetched recent_events_def)
  have whole: "take 20 ?all @ drop 20 ?all = ?all"
    by simp
  have perm: "mset (take 20 ?all @ drop 20 ?all) = mset ?objs"
    unfolding whole by (rule mset_sort_events)
  have len: "length (take 20 ?all) = min 20 (length ?objs)"
    by (simp add: length_sort_events min.commute)
  have dated:
    "sorted_wrt (\<lambda>a b. the (event_time e b) \<le> the (event_time e a))
       (take 20 ?all @ drop 20 ?all) \<and>
     take 20 ?all = take 20 (sort_key (desc_key e) ?objs)"
    if "\<forall>ev\<in>set (snapshot_children snapshot). is_object ev \<longrightarrow> event_time e ev \<noteq> None"
  proof -
    have "\<forall>x\<in>set ?objs. event_time e x \<noteq> None"
      using that by simp
    then have eq: "?all = sort_key (desc_key e) ?objs"
      by (rule sort_events_dated)
    have "sorted (map (desc_key e) (sort_key (desc_key e) ?objs))"
      by simp
    then have "sorted_wrt (\<lambda>a b. the (event_time e b) \<le> the (event_time e a))
                 (sort_key (desc_key e) ?objs)"
      by (rule sorted_desc_key)
    then show ?thesis
      unfolding whole eq by simp
  qed
  show ?thesis
    unfolding res res'
    using perm len dated by (intro exI [of _ "drop 20 ?all"]) blast
qed

text \<open>
  The theorem at work, on the specification's example: the log holds the events of the
  third, the first and the second day in that order, and a note that is no object; the
  hook stores the events of the third, second and first day.
\<close>

theorem irrigation_events_filtered_truncated_sorted_witness:
  "get log_env (''irrigation_log/'' @ ''AF001'') = Inr sample_log \<and>
   map (event_time log_env) (filter is_object (snapshot_children sample_log)) =
     [Some 1704240000000, Some 1704067200000, Some 1704153600000] \<and>
   irrigationEvents (fetchIrrigationEvents log_env ''AF001'' loaded_hook) =
     [event_on ''2024-01-03T00:00:00Z'', event_on ''2024-01-02T00:00:00Z'',
      event_on ''2024-01-01T00:00:00Z'']"
proof -
  have g: "get log_env (''irrigation_log/'' @ ''AF001'') = Inr sample_log"
    by (simp add: log_env_def)
  have t: "\<forall>ev\<in>set (snapshot_children sample_log). is_object ev \<longrightarrow> event_time log_env ev \<noteq> None"
    by (simp add: sample_log_def event_time_def event_on_def log_env_def)
  have times: "map (event_time log_env) (filter is_object (snapshot_children sample_log)) =
     [Some 1704240000000, Some 1704067200000, Some 1704153600000]"
    by (simp add: sample_log_def event_time_def event_on_def log_env_def)
  from irrigation_events_filtered_truncated_sorted [OF g, of loaded_hook loaded_hook] t
  have "irrigationEvents (fetchIrrigationEvents log_env ''AF001'' loaded_hook) =
          take 20 (sort_key (desc_key log_env) (filter is_object (snapshot_children sample_log)))"
    by blast
  also have "\<dots> = [event_on ''2024-01-03T00:00:00Z'', event_on ''2024-01-02T00:00:00Z'',
      event_on ''2024-01-01T00:00:00Z'']"
    by (simp add: sample_log_def desc_key_def event_time_def event_on_def log_env_def)
  finally show ?thesis
    using g times by simp
qed

text \<open>
  Claim C5 as the specification states it fails on a log with an event that has no
  timestamp: the comparator returns \<^verbatim>\<open>NaN\<close> for every pair with that event, and an engine
  that then leaves the array as it is stores the event of the first day before the event
  of the third day.
\<close>

theorem irrigation_events_undated_counterexample:
  "irrigationEvents (fetchIrrigationEvents undated_env ''AF001'' initial_hook) =
     [event_on ''2024-01-01T00:00:00Z'', undated_event, event_on ''2024-01-03T00:00:00Z''] \<and>
   event_time undated_env (event_on ''2024-01-01T00:00:00Z'') = Some 1704067200000 \<and>
   event_time undated_env undated_event = None \<and>
   event_time undated_env (event_on ''2024-01-03T00:00:00Z'') = Some 1704240000000"
  by (simp add: fetchIrrigationEvents_def undated_env_def log_env_def undated_log_def
      undated_event_def event_on_def snapshot_exists_def recent_events_def sort_events_def
      event_time_def arrange_def initial_hook_def)

section \<open>Decoding the historical batch\<close>

lemma convertFirestoreDoc_failed_iff:
  "fst (convertFirestoreDoc dev d) = None \<longleftrightarrow>
     (case d of DataThrows err \<Rightarrow> True | DataReturns data \<Rightarrow> nullish data)"
  by (cases d) (simp_all add: convert_failed_def)

lemma convertFirestoreDoc_failed:
  "fst (convertFirestoreDoc dev d) = None \<Longrightarrow> convertFirestoreDoc dev d = convert_failed"
  by (cases d) (simp_all add: convert_failed_def split: if_splits)

lemma collect_readings_append:
  "collect_readings dev (xs @ ys) =
     (fst (collect_readings dev xs) @ fst (collect_readings dev ys),
      snd (collect_readings dev xs) @ snd (collect_readings dev ys))"
  by (induction xs) (simp_all add: split_beta Let_def split: option.splits)

lemma collect_readings_dropped:
  assumes "fst (convertFirestoreDoc dev d) = None"
  shows "collect_readings dev (xs @ d # ys) =
     (fst (collect_readings dev xs) @ fst (collect_readings dev ys),
      snd (collect_readings dev xs) @ ConsoleError ''Error converting Firestore doc:'' #
        snd (collect_readings dev ys))"
  using convertFirestoreDoc_failed [OF assms]
  by (simp add: collect_readings_append [of dev xs] convert_failed_def split_beta)

lemma fetchHistoricalData_stored:
  "getDocs e (history_query dev) = Inr docs \<Longrightarrow>
   historicalData (fetchHistoricalData e dev s) = fst (collect_readings dev docs)"
  by (simp add: fetchHistoricalData_def split_beta)

text \<open>
  Claim C4, as the code has it.
  \<^item> A document whose \<^verbatim>\<open>data()\<close> yields a value other than \<^verbatim>\<open>null\<close> and \<^verbatim>\<open>undefined\<close> always
    decodes, without a console entry. Each field of the reading is the value found at
    \<^verbatim>\<open>data.fields.NAME.KIND\<close> when that value is truthy, whatever its type, and a default
    when it is missing or falsy: the hook's own device identifier for \<open>device_id\<close>,
    \<open>OFF\<close> for \<open>pump_state\<close>, \<open>false\<close> for \<open>pump_active\<close>, the empty string for the other
    three string fields, and \<open>0\<close> for the eleven numeric fields.
  \<^item> A document fails to decode exactly when its \<^verbatim>\<open>data()\<close> throws or yields \<^verbatim>\<open>null\<close> or
    \<^verbatim>\<open>undefined\<close>. Such a document, anywhere in a batch, contributes no reading and one
    console error; the readings and console entries of the documents before and after
    it are kept, in order.
  \<^item> When the query succeeds, the stored historical sequence is the list of the readings
    so collected.
\<close>

theorem decode_defaults_and_dropped_records:
  "(\<not> nullish data \<longrightarrow>
     (\<exists>r. convertFirestoreDoc dev (DataReturns data) = (Some r, []) \<and>
       device_id r = (if truthy (field_of data ''device_id'' ''stringValue'')
                      then field_of data ''device_id'' ''stringValue'' else JString dev) \<and>
       pump_state r = (if truthy (field_of data ''pump_state'' ''stringValue'')
                       then field_of data ''pump_state'' ''stringValue'' else JString ''OFF'') \<and>
       pump_active r = (if truthy (field_of data ''pump_active'' ''booleanValue'')
                        then field_of data ''pump_active'' ''booleanValue'' else JBool False) \<and>
       (\<forall>(sel, name) \<in> set [(timestamp, ''timestamp''), (date, ''date''),
                               (irrigation_reason, ''irrigation_reason'')].
          sel r = (if truthy (field_of data name ''stringValue'')
                   then field_of data name ''stringValue'' else JString [])) \<and>
       (\<forall>(sel, name) \<in> set [(air_temperature, ''air_temperature''),
            (soil_temperature, ''soil_temperature''), (humidity, ''humidity''),
            (moisture_surface, ''moisture_surface''), (moisture_root, ''moisture_root''),
            (moisture_deep, ''moisture_deep''), (daily_cycles, ''daily_cycles''),
            (wifi_signal_dbm, ''wifi_signal_dbm''), (uptime_ms, ''uptime_ms''),
            (rtdb_uploads, ''rtdb_uploads''), (firestore_uploads, ''firestore_uploads'')].
          sel r = (if truthy (field_of data name ''integerValue'')
                   then field_of data name ''integerValue'' else JNumber 0)))) \<and>
   (fst (convertFirestoreDoc dev d) = None \<longleftrightarrow>
      (case d of DataThrows err \<Rightarrow> True | DataReturns v \<Rightarrow> nullish v)) \<and>
   (fst (convertFirestoreDoc dev d) = None \<longrightarrow>
      collect_readings dev (xs @ d # ys) =
        (fst (collect_readings dev xs) @ fst (collect_readings dev ys),
         snd (collect_readings dev xs) @ ConsoleError ''Error converting Firestore doc:'' #
           snd (collect_readings dev ys))) \<and>
   (getDocs e (history_query dev) = Inr docs \<longrightarrow>
      historicalData (fetchHistoricalData e dev s) = fst (collect_readings dev docs))"
proof (intro conjI impI)
  assume "\<not> nullish data"
  then have decoded:
    "convertFirestoreDoc dev (DataReturns data) = (Some (decode_fields dev data), [])"
    by simp
  show "\<exists>r. convertFirestoreDoc dev (DataReturns data) = (Some r, []) \<and>
       device_id r = (if truthy (field_of data ''device_id'' ''stringValue'')
                      then field_of data ''device_id'' ''stringValue'' else JString dev) \<and>
       pump_state r = (if truthy (field_of data ''pump_state'' ''stringValue'')
                       then field_of data ''pump_state'' ''stringValue'' else JString ''OFF'') \<and>
       pump_active r = (if truthy (field_of data ''pump_active'' ''booleanValue'')
                        then field_of data ''pump_active'' ''booleanValue'' else JBool False) \<and>
       (\<forall>(sel, name) \<in> set [(timestamp, ''timestamp''), (date, ''date''),
                               (irrigation_reason, ''irrigation_reason'')].
          sel r = (if truthy (field_of data name ''stringValue'')
                   then field_of data name ''stringValue'' else JString [])) \<and>
       (\<forall>(sel, name) \<in> set [(air_temperature, ''air_temperature''),
            (soil_temperature, ''soil_temperature''), (humidity, ''humidity''),
            (moisture_surface, ''moisture_surface''), (moisture_root, ''moisture_root''),
            (moisture_deep, ''moisture_deep''), (daily_cycles, ''daily_cycles''),
            (wifi_signal_dbm, ''wifi_signal_dbm''), (uptime_ms, ''uptime_ms''),
            (rtdb_uploads, ''rtdb_uploads''), (firestore_uploads, ''firestore_uploads'')].
          sel r = (if truthy (field_of data name ''integerValue'')
                   then field_of data name ''integerValue'' else JNumber 0))"
    unfolding decoded
    by (intro exI [of _ "decode_fields dev data"]) (simp add: decode_fields_def js_or_def)
next
  show "fst (convertFirestoreDoc dev d) = None \<longleftrightarrow>
      (case d of DataThrows err \<Rightarrow> True | DataReturns v \<Rightarrow> nullish v)"
    by (rule convertFirestoreDoc_failed_iff)
next
  assume "fst (convertFirestoreDoc dev d) = None"
  then show "collect_readings dev (xs @ d # ys) =
        (fst (collect_readings dev xs) @ fst (collect_readings dev ys),
         snd (collect_readings dev xs) @ ConsoleError ''Error converting Firestore doc:'' #
           snd (collect_readings dev ys))"
    by (rule collect_readings_dropped)
next
  assume "getDocs e (history_query dev) = Inr docs"
  then show "historicalData (fetchHistoricalData e dev s) = fst (collect_readings dev docs)"
    by (rule fetchHistoricalData_stored)
qed

text \<open>
  The theorem at work: an empty document decodes to the defaults, and of a batch whose
  second document yields \<^verbatim>\<open>null\<close> the first and third readings are stored, in order.
\<close>

theorem decode_defaults_and_dropped_records_witness:
  "map_option device_id (fst (convertFirestoreDoc ''AF001'' (DataReturns (JObject [])))) =
     Some (JString ''AF001'') \<and>
   map_option pump_state (fst (convertFirestoreDoc ''AF001'' (DataReturns (JObject [])))) =
     Some (JString ''OFF'') \<and>
   map_option humidity (fst (convertFirestoreDoc ''AF001'' (DataReturns (JObject [])))) =
     Some (JNumber 0) \<and>
   fst (convertFirestoreDoc ''AF001'' (DataReturns JNull)) = None \<and>
   getDocs batch_env (history_query ''AF001'') = Inr mixed_batch \<and>
   map timestamp (historicalData (fetchHistoricalData batch_env ''AF001'' initial_hook)) =
     [JString ''2024-01-01T00:30:00Z'', JString ''2024-01-01T00:00:00Z'']"
proof -
  have present: "\<not> nullish (JObject [])"
    by simp
  have dropped: "fst (convertFirestoreDoc ''AF001'' (DataReturns JNull)) = None"
    by (simp add: convert_failed_def)
  have answered: "getDocs batch_env (history_query ''AF001'') = Inr mixed_batch"
    by (simp add: batch_env_def)
  have batch: "mixed_batch =
      [DataReturns (reading_doc ''AF001'' ''2024-01-01T00:30:00Z'')] @ DataReturns JNull #
      [DataReturns (reading_doc ''AF001'' ''2024-01-01T00:00:00Z'')]"
    by (simp add: mixed_batch_def)
  note inst = decode_defaults_and_dropped_records
    [of "JObject []" "''AF001''" "DataReturns JNull"
        "[DataReturns (reading_doc ''AF001'' ''2024-01-01T00:30:00Z'')]"
        "[DataReturns (reading_doc ''AF001'' ''2024-01-01T00:00:00Z'')]"
        batch_env mixed_batch initial_hook]
  from inst present obtain r where
    r: "convertFirestoreDoc ''AF001'' (DataReturns (JObject [])) = (Some r, [])"
       "device_id r = JString ''AF001''" "pump_state r = JString ''OFF''"
       "humidity r = JNumber 0"
    by (auto simp: field_of_def opt_chain_def)
  from inst dropped answered
  have "historicalData (fetchHistoricalData batch_env ''AF001'' initial_hook) =
      fst (collect_readings ''AF001'' [DataReturns (reading_doc ''AF001'' ''2024-01-01T00:30:00Z'')]) @
      fst (collect_readings ''AF001'' [DataReturns (reading_doc ''AF001'' ''2024-01-01T00:00:00Z'')])"
    unfolding batch by simp
  then have stored:
    "map timestamp (historicalData (fetchHistoricalData batch_env ''AF001'' initial_hook)) =
     [JString ''2024-01-01T00:30:00Z'', JString ''2024-01-01T00:00:00Z'']"
    by (simp add: reading_doc_def decode_fields_def field_of_def opt_chain_def js_or_def)
  show ?thesis
    using r dropped answered stored by simp
qed

text \<open>
  Claim C4 as the specification states it fails on a document that has no \<open>device_id\<close> and
  whose \<open>air_temperature\<close> holds a text where an integer belongs: the string field
  \<open>device_id\<close> gets the hook's device identifier, which is neither empty nor \<open>OFF\<close>, and
  the malformed number is copied as it is, with no default in its place.
\<close>

theorem decode_defaults_counterexample:
  "map_option device_id (fst (convertFirestoreDoc ''AF001''
      (DataReturns (JObject [(''fields'', JObject
         [(''air_temperature'', JObject [(''integerValue'', JString ''warm'')])])])))) =
     Some (JString ''AF001'') \<and>
   map_option air_temperature (fst (convertFirestoreDoc ''AF001''
      (DataReturns (JObject [(''fields'', JObject
         [(''air_temperature'', JObject [(''integerValue'', JString ''warm'')])])])))) =
     Some (JString ''warm'')"
  by (simp add: decode_fields_def field_of_def opt_chain_def js_or_def)

section \<open>The historical query and the device\<close>

lemma recent_events_same:
  "getTime e = getTime e' \<Longrightarrow> sort_rank e = sort_rank e' \<Longrightarrow>
   recent_events e snapshot = recent_events e' snapshot"
proof -
  assume t: "getTime e = getTime e'" and r: "sort_rank e = sort_rank e'"
  have "event_time e = event_time e'"
    using t by (simp add: event_time_def fun_eq_iff)
  moreover from this have "compare_events e = compare_events e'"
    by (simp add: compare_events_def fun_eq_iff)
  ultimately show ?thesis
    using r by (simp add: recent_events_def sort_events_def)
qed

lemma fetchIrrigationEvents_same:
  assumes "same_answers e e' d"
  shows "fetchIrrigationEvents e d s = fetchIrrigationEvents e' d s"
proof -
  have r: "recent_events e = recent_events e'"
    using assms by (intro ext recent_events_same) (simp_all add: same_answers_def)
  have g: "get e (''irrigation_log/'' @ d) = get e' (''irrigation_log/'' @ d)"
    using assms by (simp add: same_answers_def)
  show ?thesis
    unfolding fetchIrrigationEvents_def r g ..
qed

lemma fetchHistoricalData_same:
  assumes "same_answers e e' d"
  shows "fetchHistoricalData e d s = fetchHistoricalData e' d s"
proof -
  have g: "getDocs e (history_query d) = getDocs e' (history_query d)"
    using assms by (simp add: same_answers_def)
  show ?thesis
    unfolding fetchHistoricalData_def g ..
qed

lemma refresh_snapshots_same:
  assumes "same_answers e e' d"
  shows "refresh_snapshots e d s = refresh_snapshots e' d s"
proof -
  have g: "get e (live_path d) = get e' (live_path d)"
    "get e (status_path d) = get e' (status_path d)" "now e = now e'"
    using assms by (simp_all add: same_answers_def)
  show ?thesis
    unfolding refresh_snapshots_def g ..
qed

lemma both_fetches_same:
  assumes "same_answers e e' d"
  shows "both_fetches e d s = both_fetches e' d s"
proof -
  have h: "history_first e = history_first e'"
    using assms by (simp add: same_answers_def)
  show ?thesis
    unfolding both_fetches_def h
    by (simp add: fetchHistoricalData_same [OF assms] fetchIrrigationEvents_same [OF assms])
qed

lemma refreshData_same:
  assumes "same_answers e e' d"
  shows "refreshData e d s = refreshData e' d s"
  unfolding refreshData_def
  by (simp add: both_fetches_same [OF assms] refresh_snapshots_same [OF assms])

text \<open>
  Claim C6, as the code has it.
  \<^item> The hook watches the device its caller names, \<open>AF001\<close> when the caller names none.
  \<^item> Its two subscriptions are on the paths \<open>live_monitoring/<device>\<close> and
    \<open>device_status/<device>\<close>.
  \<^item> A refresh reads the realtime database at those two paths and at
    \<open>irrigation_log/<device>\<close> and nowhere else: two surroundings that agree there, and on
    the answer to the history query, leave the hook in the same state, whatever they hold
    for other devices.
  \<^item> The history query is not keyed by the device. It asks for the 48 most recent documents
    of the collection \<open>sensor_readings\<close>, the same query for every device, and a document
    the store returns is stored under the device identifier it carries: a reading of the
    device \<open>d'\<close> stays a reading of \<open>d'\<close> in the history of a hook that watches \<open>d\<close>.
\<close>

theorem realtime_keyed_history_shared:
  "hook_device None = ''AF001'' \<and> hook_device (Some d) = d \<and>
   setupRealTimeListeners d = [''live_monitoring/'' @ d, ''device_status/'' @ d] \<and>
   (same_answers e e' d \<longrightarrow> refreshData e d s = refreshData e' d s) \<and>
   history_query d =
     \<lparr>collection_path = ''sensor_readings'',
      constraints = [OrderBy ''fields.timestamp.stringValue'' Desc, Limit 48]\<rparr> \<and>
   history_query d = history_query d' \<and>
   (d' \<noteq> [] \<and> getDocs e (history_query d) = Inr [DataReturns (reading_doc d' ts)] \<longrightarrow>
      map device_id (historicalData (fetchHistoricalData e d s)) = [JString d'])"
proof (intro conjI impI)
  show "hook_device None = ''AF001''" and "hook_device (Some d) = d"
    by (simp_all add: hook_device_def)
  show "setupRealTimeListeners d = [''live_monitoring/'' @ d, ''device_status/'' @ d]"
    by (simp add: setupRealTimeListeners_def live_path_def status_path_def)
  show "history_query d =
     \<lparr>collection_path = ''sensor_readings'',
      constraints = [OrderBy ''fields.timestamp.stringValue'' Desc, Limit 48]\<rparr>"
    by (simp add: history_query_def)
  show "history_query d = history_query d'"
    by (simp add: history_query_def)
next
  assume "same_answers e e' d"
  then show "refreshData e d s = refreshData e' d s"
    by (rule refreshData_same)
next
  assume "d' \<noteq> [] \<and> getDocs e (history_query d) = Inr [DataReturns (reading_doc d' ts)]"
  then show "map device_id (historicalData (fetchHistoricalData e d s)) = [JString d']"
    by (simp add: fetchHistoricalData_def reading_doc_def decode_fields_def field_of_def
        opt_chain_def js_or_def)
qed

text \<open>
  The theorem at work: a reading of \<open>AF002\<close> stored at \<open>live_monitoring/AF002\<close> makes no
  difference to a refresh of the hook that watches \<open>AF001\<close>, and a \<open>sensor_readings\<close>
  document of \<open>AF002\<close> lands in that hook's history.
\<close>

theorem realtime_keyed_history_shared_witness:
  "get crowded_env ''live_monitoring/AF002'' \<noteq> get offline_env ''live_monitoring/AF002'' \<and>
   refreshData crowded_env ''AF001'' loaded_hook = refreshData offline_env ''AF001'' loaded_hook \<and>
   getDocs other_device_env (history_query ''AF001'') =
     Inr [DataReturns (reading_doc ''AF002'' ''2024-01-01T00:30:00Z'')] \<and>
   map device_id (historicalData (fetchHistoricalData other_device_env ''AF001'' loaded_hook)) =
     [JString ''AF002'']"
proof -
  have other: "get crowded_env ''live_monitoring/AF002'' \<noteq> get offline_env ''live_monitoring/AF002''"
    by (simp add: crowded_env_def offline_env_def)
  have same: "same_answers crowded_env offline_env ''AF001''"
    by (simp add: same_answers_def crowded_env_def live_path_def status_path_def)
  have answered: "getDocs other_device_env (history_query ''AF001'') =
     Inr [DataReturns (reading_doc ''AF002'' ''2024-01-01T00:30:00Z'')]"
    by (simp add: other_device_env_def history_query_def)
  have named: "''AF002'' \<noteq> []"
    by simp
  show ?thesis
    using other same answered named
      realtime_keyed_history_shared [of "''AF001''" crowded_env offline_env loaded_hook]
      realtime_keyed_history_shared [of "''AF001''" other_device_env other_device_env
        loaded_hook "''AF002''" "''2024-01-01T00:30:00Z''"]
    by simp
qed

text \<open>
  Claim C6 as the specification states it fails at a store whose \<open>sensor_readings\<close>
  collection holds a reading uploaded by \<open>AF002\<close>: the hook that watches \<open>AF001\<close> stores
  it as its history.
\<close>

theorem history_fetch_other_device_counterexample:
  "map device_id (historicalData (fetchHistoricalData other_device_env ''AF001'' initial_hook)) =
     [JString ''AF002'']"
  by (simp add: history_query_def fetchHistoricalData_def other_device_env_def reading_doc_def
      decode_fields_def field_of_def opt_chain_def js_or_def initial_hook_def)

section \<open>The chart's window\<close>

lemma formatHistoricalData_drop:
  "formatHistoricalData f hs = map (chart_point_of f) (drop (length hs - 24) hs)"
  by (simp add: formatHistoricalData_def slice_last_def)

lemma stored_48_split:
  "stored_48 = map reading_at (rev [34..<58]) @ map reading_at (rev [10..<34])"
proof -
  have "[10..<58] = [10..<34] @ [34..<58]"
    by (simp add: upt_add_eq_append [of 10 34 24, simplified])
  then show ?thesis by (simp add: stored_48_def)
qed

text \<open>
  Claim C8, on the code. The stored sequence is newest first, and the chart takes its
  last 24 elements. Of the 48 readings from 00:57 down to 00:10 the chart therefore shows
  those from 00:33 down to 00:10, the oldest 24; the most recent 24, from 00:57 down to
  00:34, are the first 24 of the sequence and are left out.
\<close>

theorem chart_shows_oldest_readings:
  "length stored_48 = 48 \<and>
   map time (formatHistoricalData id stored_48) = map stamp (rev [10..<34]) \<and>
   map HistoricalReading_view.timestamp (take 24 stored_48) = map stamp (rev [34..<58])"
  by (simp add: formatHistoricalData_drop stored_48_split chart_point_of_def reading_at_def
      comp_def)

end
